theory Spec2Isabelle
  imports Complex_Main "HOL-Library.Word"
begin

section \<open>Python values, exceptions and byte strings\<close>

text \<open>
  The embedding follows the Python sources \<^verbatim>\<open>application.py\<close>, \<^verbatim>\<open>commons.py\<close>,
  \<^verbatim>\<open>loaders/chrome_bookmarks.py\<close> and \<^verbatim>\<open>loaders/tabs_outliner_db.py\<close>.

  Conventions.
  \<^item> A raise is a value \<open>Inl e\<close> of the sum \<open>exc + 'a\<close>; \<open>Inr x\<close> is a normal return.
  \<^item> Python \<open>int\<close> is \<open>int\<close>. A Python \<open>float\<close> and a \<open>datetime\<close> (read through
    \<open>timestamp()\<close>, seconds since the epoch) are idealised as exact rationals: rounding,
    infinities and NaN are outside the model.
  \<^item> A Python \<open>str\<close> is a \<open>string\<close>, the list of its UTF-8 code units; \<open>bytes\<close> is
    a list of 8-bit words.
  \<^item> \<open>assert\<close> statements are executed (the interpreter runs without \<open>-O\<close>).
\<close>

datatype exc =
    AssertionError
  | AttributeError
  | TypeError
  | ValueError
  | KeyError
  | IndexError
  | OverflowError
  | UnicodeDecodeError
  | OperationalError
  | IntegrityError
  | FileAccessError string
  | UnexpectedInputError string
  | DatabaseAccessError string

type_synonym byte = "8 word"
type_synonym bytes = "byte list"

text \<open>\<open>int.to_bytes(n, 'little', signed=False)\<close> and \<open>int.from_bytes(b, 'little', signed=False)\<close>.\<close>

fun le_bytes :: "nat \<Rightarrow> int \<Rightarrow> bytes" where
  "le_bytes 0 i = []"
| "le_bytes (Suc n) i = word_of_int (i mod 256) # le_bytes n (i div 256)"

definition int_to_bytes :: "int \<Rightarrow> nat \<Rightarrow> exc + bytes" where
  "int_to_bytes i n = (if i < 0 \<or> 256 ^ n \<le> i then Inl OverflowError else Inr (le_bytes n i))"

fun int_from_bytes :: "bytes \<Rightarrow> int" where
  "int_from_bytes [] = 0"
| "int_from_bytes (b # bs) = uint b + 256 * int_from_bytes bs"

section \<open>application.py: the BLOB coders\<close>

text \<open>A value read from a column, as the \<open>sqlite3\<close> module hands it to Python:
  \<open>None\<close>, \<open>int\<close>, \<open>float\<close>, \<open>str\<close> or \<open>bytes\<close>.\<close>

datatype sqlval = SqlNull | SqlInteger int | SqlReal rat | SqlText string | SqlBlob bytes

definition sqlite3_blob_encode_int :: "int \<Rightarrow> exc + bytes" where
  "sqlite3_blob_encode_int i =
     (case int_to_bytes i 4 of
        Inl e \<Rightarrow> (if e = OverflowError then Inl AssertionError else Inl e)
      | Inr result \<Rightarrow> Inr result)"

text \<open>\<open>assert len(b) == 4\<close> raises \<open>TypeError\<close> on a value without a length;
  \<open>int.from_bytes\<close> raises \<open>TypeError\<close> on a \<open>str\<close>.\<close>

definition sqlite3_blob_decode_int :: "sqlval \<Rightarrow> exc + int" where
  "sqlite3_blob_decode_int b =
     (case b of
        SqlBlob bs \<Rightarrow> (if length bs = 4 then Inr (int_from_bytes bs) else Inl AssertionError)
      | SqlText s \<Rightarrow> (if length s = 4 then Inl TypeError else Inl AssertionError)
      | SqlNull \<Rightarrow> Inl TypeError
      | SqlInteger _ \<Rightarrow> Inl TypeError
      | SqlReal _ \<Rightarrow> Inl TypeError)"

text \<open>\<open>s.encode('utf-8')\<close>: the code units of the text, as bytes.\<close>

definition sqlite3_blob_encode_str :: "string \<Rightarrow> bytes" where
  "sqlite3_blob_encode_str s = map of_char s"

text \<open>Well-formed UTF-8 (the byte ranges of the Unicode standard, table 3-7), which
  \<open>b.decode('utf-8')\<close> demands; anything else raises \<open>UnicodeDecodeError\<close>.\<close>

definition cont_byte :: "nat \<Rightarrow> bool" where
  "cont_byte b = (128 \<le> b \<and> b \<le> 191)"

fun utf8_valid :: "nat list \<Rightarrow> bool" where
  "utf8_valid [] = True"
| "utf8_valid [a] = (a < 128)"
| "utf8_valid [a, b] =
     (if a < 128 then utf8_valid [b] else 194 \<le> a \<and> a \<le> 223 \<and> cont_byte b)"
| "utf8_valid [a, b, c] =
     (if a < 128 then utf8_valid [b, c]
      else if 194 \<le> a \<and> a \<le> 223 then cont_byte b \<and> utf8_valid [c]
      else if a = 224 then 160 \<le> b \<and> b \<le> 191 \<and> cont_byte c
      else if a = 237 then 128 \<le> b \<and> b \<le> 159 \<and> cont_byte c
      else 225 \<le> a \<and> a \<le> 239 \<and> cont_byte b \<and> cont_byte c)"
| "utf8_valid (a # b # c # d # r) =
     (if a < 128 then utf8_valid (b # c # d # r)
      else if 194 \<le> a \<and> a \<le> 223 then cont_byte b \<and> utf8_valid (c # d # r)
      else if a = 224 then 160 \<le> b \<and> b \<le> 191 \<and> cont_byte c \<and> utf8_valid (d # r)
      else if a = 237 then 128 \<le> b \<and> b \<le> 159 \<and> cont_byte c \<and> utf8_valid (d # r)
      else if 225 \<le> a \<and> a \<le> 239 then cont_byte b \<and> cont_byte c \<and> utf8_valid (d # r)
      else if a = 240 then 144 \<le> b \<and> b \<le> 191 \<and> cont_byte c \<and> cont_byte d \<and> utf8_valid r
      else if a = 244 then 128 \<le> b \<and> b \<le> 143 \<and> cont_byte c \<and> cont_byte d \<and> utf8_valid r
      else 241 \<le> a \<and> a \<le> 243 \<and> cont_byte b \<and> cont_byte c \<and> cont_byte d \<and> utf8_valid r)"

text \<open>\<open>b.decode('utf-8')\<close>: only \<open>bytes\<close> has the method; \<open>None\<close>, \<open>str\<close>, \<open>int\<close> and
  \<open>float\<close> raise \<open>AttributeError\<close>.\<close>

definition sqlite3_blob_decode_str :: "sqlval \<Rightarrow> exc + string" where
  "sqlite3_blob_decode_str b =
     (case b of
        SqlBlob bs \<Rightarrow>
          (if utf8_valid (map unat bs) then Inr (map (\<lambda>x. char_of (unat x)) bs)
           else Inl UnicodeDecodeError)
      | SqlNull \<Rightarrow> Inl AttributeError
      | SqlInteger _ \<Rightarrow> Inl AttributeError
      | SqlReal _ \<Rightarrow> Inl AttributeError
      | SqlText _ \<Rightarrow> Inl AttributeError)"

text \<open>A \<open>uuid.UUID\<close> is its 16 bytes. \<open>uuid.uuid3(namespace, name)\<close> hashes with MD5; the
  functions below take it as the parameter \<open>uuid3\<close>.\<close>

datatype uuid = UUID (uuid_bytes: bytes)

definition sqlite3_blob_encode_uuid :: "uuid \<Rightarrow> bytes" where
  "sqlite3_blob_encode_uuid u = uuid_bytes u"

definition OUTPUT_DB_EXTRA_SPEC :: "(string \<times> string option \<times> string) list" where
  "OUTPUT_DB_EXTRA_SPEC =
     [(''db_id'', None, ''str''), (''db_v'', None, ''int''),
      (''latest_output_timestamp'', None, ''int'')]"

definition OUTPUT_DB_ID_STR :: string where
  "OUTPUT_DB_ID_STR = ''hasty-ruby-coypu''"

definition OUTPUT_DB_V_INT :: int where
  "OUTPUT_DB_V_INT = 1"

definition UUID_BASE_NAMESPACE :: uuid where
  "UUID_BASE_NAMESPACE =
     UUID [0x30, 0x22, 0x74, 0x37, 0x1d, 0xa5, 0x4e, 0x0f,
           0x91, 0xcf, 0xcc, 0x41, 0x74, 0xfb, 0x6c, 0xc6]"

definition UUID_CATEGORY_BASE :: "(uuid \<Rightarrow> string \<Rightarrow> uuid) \<Rightarrow> uuid" where
  "UUID_CATEGORY_BASE uuid3 = uuid3 UUID_BASE_NAMESPACE ''category''"

definition UUID_ENTRY_BASE :: "(uuid \<Rightarrow> string \<Rightarrow> uuid) \<Rightarrow> uuid" where
  "UUID_ENTRY_BASE uuid3 = uuid3 UUID_BASE_NAMESPACE ''entry''"

definition DEFAULT_CATEGORY_UUID :: "(uuid \<Rightarrow> string \<Rightarrow> uuid) \<Rightarrow> uuid" where
  "DEFAULT_CATEGORY_UUID uuid3 = uuid3 (UUID_CATEGORY_BASE uuid3) ''default''"

definition DEFAULT_CATEGORY_TEXT_ID :: string where
  "DEFAULT_CATEGORY_TEXT_ID = ''default''"

definition DEFAULT_CATEGORY_DISPLAYNAME :: string where
  "DEFAULT_CATEGORY_DISPLAYNAME = ''Default''"

text \<open>\<open>bytes.hex()\<close>: two lower-case hexadecimal digits per byte.\<close>

definition hex_digit :: "nat \<Rightarrow> char" where
  "hex_digit n = ''0123456789abcdef'' ! (n mod 16)"

definition bytes_hex :: "bytes \<Rightarrow> string" where
  "bytes_hex bs = concat (map (\<lambda>b. [hex_digit (unat b div 16), hex_digit (unat b mod 16)]) bs)"

section \<open>The environment\<close>

text \<open>What the program reads from outside during a run: \<open>env_now\<close> is the value of
  \<open>datetime.datetime.now(tz=datetime.timezone.utc)\<close> at the time of the run, and
  \<open>env_randbytes k\<close> is what the \<open>k\<close>-th call of \<open>random.randbytes(16)\<close> returns.\<close>

record environment =
  env_now :: rat
  env_randbytes :: "nat \<Rightarrow> bytes"

section \<open>commons.py: the canonical record\<close>

text \<open>\<open>LoadedData\<close>. The loaders fill \<open>entries\<close> as a Python set; the list is that set in
  the order in which the store iterates over it, an order nothing below depends on.\<close>

record LoadedData =
  output_timestamp :: rat
  entries :: "(string \<times> string) list"

section \<open>The database engine, as far as the code drives it\<close>

text \<open>
  The file holds up to three tables, with the columns of \<open>DB_CREATION_SEQUENCE_SQL\<close>;
  \<open>None\<close> is a table that does not exist. A nullable column is an \<open>option\<close>.
  \<open>extra.value\<close> is read back and decoded, so it keeps its run-time type.
\<close>

type_synonym extra_row = "string \<times> sqlval"
type_synonym collections_row = "bytes option \<times> string option \<times> string option"
type_synonym entries_row = "bytes option \<times> bytes option \<times> string \<times> string option"

record database =
  extra_table :: "extra_row list option"
  collections_table :: "collections_row list option"
  entries_table :: "entries_row list option"

definition empty_database :: database where
  "empty_database = \<lparr>extra_table = None, collections_table = None, entries_table = None\<rparr>"

text \<open>
  A connection: \<open>on_disk\<close> is what is committed, \<open>in_view\<close> is what the connection sees
  (its uncommitted changes included), \<open>savepoints\<close> the open savepoints, innermost first,
  \<open>begun\<close> whether a \<open>BEGIN\<close> opened the transaction. Following the SQLite documentation:
  \<open>SAVEPOINT\<close> outside a transaction opens one; \<open>RELEASE\<close> of the outermost savepoint of
  a transaction that the savepoint opened is a \<open>COMMIT\<close>; a statement that fails leaves
  the transaction and the earlier changes in place; closing a connection drops what is
  not committed. The \<open>sqlite3\<close> module issues \<open>BEGIN\<close> before an \<open>INSERT\<close>, \<open>REPLACE\<close>
  or \<open>DELETE\<close> when no transaction is open.
\<close>

record connection =
  on_disk :: database
  in_view :: database
  savepoints :: "string list"
  begun :: bool

type_synonym 'a action = "connection \<Rightarrow> (exc + 'a) \<times> connection"

definition return_action :: "'a \<Rightarrow> 'a action" where
  "return_action x c = (Inr x, c)"

definition lift_action :: "exc + 'a \<Rightarrow> 'a action" where
  "lift_action r c = (r, c)"

definition bind_action :: "'a action \<Rightarrow> ('a \<Rightarrow> 'b action) \<Rightarrow> 'b action" where
  "bind_action m f c = (case m c of (Inl e, c') \<Rightarrow> (Inl e, c') | (Inr x, c') \<Rightarrow> f x c')"

definition connect :: "database \<Rightarrow> connection" where
  "connect d = \<lparr>on_disk = d, in_view = d, savepoints = [], begun = False\<rparr>"

definition in_autocommit :: "connection \<Rightarrow> bool" where
  "in_autocommit c = (savepoints c = [] \<and> \<not> begun c)"

definition begin_before_dml :: "connection \<Rightarrow> connection" where
  "begin_before_dml c = (if in_autocommit c then c\<lparr>begun := True\<rparr> else c)"

definition autocommit :: "connection \<Rightarrow> connection" where
  "autocommit c = (if in_autocommit c then c\<lparr>on_disk := in_view c\<rparr> else c)"

definition execute_savepoint :: "string \<Rightarrow> unit action" where
  "execute_savepoint name c = (Inr (), c\<lparr>savepoints := name # savepoints c\<rparr>)"

definition execute_release :: "string \<Rightarrow> unit action" where
  "execute_release name c =
     (if name \<notin> set (savepoints c) then (Inl OperationalError, c)
      else (Inr (),
            autocommit (c\<lparr>savepoints := tl (dropWhile (\<lambda>n. n \<noteq> name) (savepoints c))\<rparr>)))"

definition commit :: "unit action" where
  "commit c = (Inr (), c\<lparr>on_disk := in_view c, savepoints := [], begun := False\<rparr>)"

definition close :: "connection \<Rightarrow> connection" where
  "close c = c\<lparr>in_view := on_disk c, savepoints := [], begun := False\<rparr>"

datatype query =
    PragmaForeignKeys
  | PragmaSecureDelete
  | CreateTableExtra
  | CreateTableCollections
  | CreateTableEntries

fun execute_query :: "query \<Rightarrow> unit action" where
  "execute_query PragmaForeignKeys c = (Inr (), c)"
| "execute_query PragmaSecureDelete c = (Inr (), c)"
| "execute_query CreateTableExtra c =
     (case extra_table (in_view c) of
        Some _ \<Rightarrow> (Inl OperationalError, c)
      | None \<Rightarrow> (Inr (), autocommit (c\<lparr>in_view := (in_view c)\<lparr>extra_table := Some []\<rparr>\<rparr>)))"
| "execute_query CreateTableCollections c =
     (case collections_table (in_view c) of
        Some _ \<Rightarrow> (Inl OperationalError, c)
      | None \<Rightarrow> (Inr (), autocommit (c\<lparr>in_view := (in_view c)\<lparr>collections_table := Some []\<rparr>\<rparr>)))"
| "execute_query CreateTableEntries c =
     (case entries_table (in_view c) of
        Some _ \<Rightarrow> (Inl OperationalError, c)
      | None \<Rightarrow> (Inr (), autocommit (c\<lparr>in_view := (in_view c)\<lparr>entries_table := Some []\<rparr>\<rparr>)))"

text \<open>\<open>SELECT "value" FROM "extra" WHERE "name"=?\<close> followed by \<open>fetchmany(size=2)\<close>.\<close>

definition select_extra_value :: "string \<Rightarrow> sqlval list action" where
  "select_extra_value name c =
     (case extra_table (in_view c) of
        None \<Rightarrow> (Inl OperationalError, c)
      | Some rows \<Rightarrow> (Inr (take 2 (map snd (filter (\<lambda>r. fst r = name) rows))), c))"

text \<open>\<open>INSERT OR REPLACE INTO "extra" ("name", "value") VALUES (?, ?)\<close>: \<open>name\<close> is
  \<open>UNIQUE\<close>, so the rows of that name are replaced.\<close>

definition insert_or_replace_extra :: "string \<Rightarrow> bytes \<Rightarrow> unit action" where
  "insert_or_replace_extra name val c0 =
     (let c = begin_before_dml c0 in
      case extra_table (in_view c) of
        None \<Rightarrow> (Inl OperationalError, c)
      | Some rows \<Rightarrow>
          (Inr (), c\<lparr>in_view := (in_view c)\<lparr>extra_table :=
             Some (filter (\<lambda>r. fst r \<noteq> name) rows @ [(name, SqlBlob val)])\<rparr>\<rparr>))"

definition delete_extra :: "string \<Rightarrow> unit action" where
  "delete_extra name c0 =
     (let c = begin_before_dml c0 in
      case extra_table (in_view c) of
        None \<Rightarrow> (Inl OperationalError, c)
      | Some rows \<Rightarrow>
          (Inr (), c\<lparr>in_view := (in_view c)\<lparr>extra_table := Some (filter (\<lambda>r. fst r \<noteq> name) rows)\<rparr>\<rparr>))"

text \<open>\<open>INSERT OR IGNORE INTO "collections" VALUES (?, ?, ?)\<close>: \<open>collection_uuid\<close> is
  \<open>UNIQUE\<close>, so a row is added only when none has that identifier.\<close>

definition insert_or_ignore_collection :: "bytes \<Rightarrow> string \<Rightarrow> string \<Rightarrow> unit action" where
  "insert_or_ignore_collection u text_id displayname c0 =
     (let c = begin_before_dml c0 in
      case collections_table (in_view c) of
        None \<Rightarrow> (Inl OperationalError, c)
      | Some rows \<Rightarrow>
          (if list_ex (\<lambda>r. fst r = Some u) rows then (Inr (), c)
           else (Inr (), c\<lparr>in_view := (in_view c)\<lparr>collections_table :=
                   Some (rows @ [(Some u, Some text_id, Some displayname)])\<rparr>\<rparr>)))"

text \<open>\<open>SELECT EXISTS(SELECT 1 FROM "entries" WHERE ("full_url"=? AND "title"=?))\<close>;
  a \<open>NULL\<close> title equals nothing.\<close>

definition select_exists_entry :: "string \<Rightarrow> string \<Rightarrow> int action" where
  "select_exists_entry url ttl c =
     (case entries_table (in_view c) of
        None \<Rightarrow> (Inl OperationalError, c)
      | Some rows \<Rightarrow>
          (Inr (if list_ex (\<lambda>r. fst (snd (snd r)) = url \<and> snd (snd (snd r)) = Some ttl) rows
                then 1 else 0), c))"

text \<open>\<open>INSERT INTO "entries" VALUES (?, ?, ?, ?)\<close>: \<open>entry_uuid\<close> is \<open>UNIQUE\<close>, a second
  row with the same identifier is refused with \<open>IntegrityError\<close>. The foreign key is not
  enforced: \<open>PRAGMA foreign_keys\<close> is issued inside a savepoint, where it does nothing.\<close>

definition insert_entry :: "bytes \<Rightarrow> bytes \<Rightarrow> string \<Rightarrow> string \<Rightarrow> unit action" where
  "insert_entry eu cu url ttl c0 =
     (let c = begin_before_dml c0 in
      case entries_table (in_view c) of
        None \<Rightarrow> (Inl OperationalError, c)
      | Some rows \<Rightarrow>
          (if list_ex (\<lambda>r. fst r = Some eu) rows then (Inl IntegrityError, c)
           else (Inr (), c\<lparr>in_view := (in_view c)\<lparr>entries_table :=
                   Some (rows @ [(Some eu, Some cu, url, Some ttl)])\<rparr>\<rparr>)))"

section \<open>commons.py: the context managers\<close>

text \<open>\<open>str.lower()\<close> on the ASCII letters.\<close>

definition lower_char :: "char \<Rightarrow> char" where
  "lower_char ch =
     (let n = (of_char ch :: nat) in if 65 \<le> n \<and> n \<le> 90 then char_of (n + 32) else ch)"

text \<open>
  \<open>Sqlite3TransactionCustom\<close>: \<open>__enter__\<close> executes \<open>SAVEPOINT\<close>, \<open>__exit__\<close> executes
  \<open>RELEASE\<close> whether or not the body raised, and returns \<open>False\<close>, so the body's
  exception goes on unless \<open>RELEASE\<close> itself raises. The names passed are identifiers,
  so the constructor's assertion holds.
\<close>

definition Sqlite3TransactionCustom :: "string \<Rightarrow> 'a action \<Rightarrow> 'a action" where
  "Sqlite3TransactionCustom savepoint_name body c =
     (let name = map lower_char savepoint_name in
      case execute_savepoint name c of
        (Inl e, c1) \<Rightarrow> (Inl e, c1)
      | (Inr _, c1) \<Rightarrow>
          (case body c1 of
             (r, c2) \<Rightarrow>
               (case execute_release name c2 of
                  (Inl e, c3) \<Rightarrow> (Inl e, c3)
                | (Inr _, c3) \<Rightarrow> (r, c3))))"

text \<open>\<open>ExceptionOccuredWhile\<close> sets the attribute \<open>occured_while\<close> of an exception that
  leaves its block: the exception is paired with the text.\<close>

definition ExceptionOccuredWhile ::
  "string \<Rightarrow> 'a action \<Rightarrow> connection \<Rightarrow> ((exc \<times> string) + 'a) \<times> connection" where
  "ExceptionOccuredWhile text body c =
     (case body c of (Inl e, c') \<Rightarrow> (Inl (e, text), c') | (Inr x, c') \<Rightarrow> (Inr x, c'))"

section \<open>application.py: the output store\<close>

definition extra_stored_name :: "string \<Rightarrow> exc + string" where
  "extra_stored_name internal_id =
     (case map_of OUTPUT_DB_EXTRA_SPEC internal_id of
        None \<Rightarrow> Inl KeyError
      | Some spec \<Rightarrow> (case fst spec of None \<Rightarrow> Inr internal_id | Some n \<Rightarrow> Inr n))"

text \<open>\<open>output_db_extra_get\<close>; the result \<open>SqlNull\<close> is Python's \<open>None\<close>.\<close>

definition output_db_extra_get :: "string \<Rightarrow> sqlval action" where
  "output_db_extra_get internal_id =
     bind_action (lift_action (extra_stored_name internal_id)) (\<lambda>stored_name.
     bind_action (select_extra_value stored_name) (\<lambda>rows.
       if \<not> length rows \<le> 1 then lift_action (Inl AssertionError)
       else if length rows = 0 then return_action SqlNull
       else return_action (hd rows)))"

definition output_db_extra_put :: "string \<Rightarrow> bytes option \<Rightarrow> unit action" where
  "output_db_extra_put internal_id val =
     bind_action (lift_action (extra_stored_name internal_id)) (\<lambda>stored_name.
       case val of
         Some v \<Rightarrow> insert_or_replace_extra internal_id v
       | None \<Rightarrow> delete_extra internal_id)"

definition DB_CREATION_SEQUENCE_SQL :: "query list" where
  "DB_CREATION_SEQUENCE_SQL =
     [PragmaForeignKeys, PragmaSecureDelete, CreateTableExtra, CreateTableCollections,
      CreateTableEntries]"

definition verify_output_database :: "unit action" where
  "verify_output_database =
     bind_action (output_db_extra_get ''db_id'') (\<lambda>v.
     bind_action (lift_action (sqlite3_blob_decode_str v)) (\<lambda>db_id.
       if db_id \<noteq> OUTPUT_DB_ID_STR then lift_action (Inl AssertionError)
       else
     bind_action (output_db_extra_get ''db_v'') (\<lambda>w.
     bind_action (lift_action (sqlite3_blob_decode_int w)) (\<lambda>db_v.
       if db_v \<noteq> OUTPUT_DB_V_INT then lift_action (Inl AssertionError)
       else return_action ()))))"

fun execute_all :: "query list \<Rightarrow> unit action" where
  "execute_all [] = return_action ()"
| "execute_all (q # qs) = bind_action (execute_query q) (\<lambda>_. execute_all qs)"

definition build_output_database :: "unit action" where
  "build_output_database =
     bind_action (execute_all DB_CREATION_SEQUENCE_SQL) (\<lambda>_.
     bind_action (output_db_extra_put ''db_id''
                    (Some (sqlite3_blob_encode_str OUTPUT_DB_ID_STR))) (\<lambda>_.
     bind_action (lift_action (sqlite3_blob_encode_int OUTPUT_DB_V_INT)) (\<lambda>v.
       output_db_extra_put ''db_v'' (Some v))))"

text \<open>
  The loop over \<open>output_data.entries\<close>; \<open>k\<close> counts the calls of \<open>random.randbytes\<close>
  made so far.
\<close>

fun insert_entries ::
  "(uuid \<Rightarrow> string \<Rightarrow> uuid) \<Rightarrow> (nat \<Rightarrow> bytes) \<Rightarrow> nat \<Rightarrow> (string \<times> string) list \<Rightarrow> unit action" where
  "insert_entries uuid3 randbytes k [] = return_action ()"
| "insert_entries uuid3 randbytes k (entry # rest) =
     bind_action (select_exists_entry (fst entry) (snd entry)) (\<lambda>found.
       if found = 0 then
         bind_action
           (insert_entry
              (sqlite3_blob_encode_uuid (uuid3 (UUID_ENTRY_BASE uuid3) (bytes_hex (randbytes k))))
              (sqlite3_blob_encode_uuid (DEFAULT_CATEGORY_UUID uuid3))
              (fst entry) (snd entry))
           (\<lambda>_. insert_entries uuid3 randbytes (Suc k) rest)
       else insert_entries uuid3 randbytes k rest)"

text \<open>The body of the \<open>db_filling\<close> block.\<close>

definition filling ::
  "(uuid \<Rightarrow> string \<Rightarrow> uuid) \<Rightarrow> (nat \<Rightarrow> bytes) \<Rightarrow> LoadedData \<Rightarrow> unit action" where
  "filling uuid3 randbytes output_data =
     bind_action (lift_action (sqlite3_blob_encode_int \<lfloor>output_timestamp output_data\<rfloor>)) (\<lambda>ts.
     bind_action (output_db_extra_put ''latest_output_timestamp'' (Some ts)) (\<lambda>_.
     bind_action (insert_or_ignore_collection
                    (sqlite3_blob_encode_uuid (DEFAULT_CATEGORY_UUID uuid3))
                    DEFAULT_CATEGORY_TEXT_ID DEFAULT_CATEGORY_DISPLAYNAME) (\<lambda>_.
       insert_entries uuid3 randbytes 0 (entries output_data))))"

definition LOCAL_TO_EXTERNAL_STAGES :: "(string \<times> string) list" where
  "LOCAL_TO_EXTERNAL_STAGES =
     [(''db_connecting'', ''output_db_connecting''),
      (''db_verifying'', ''output_db_verifying''),
      (''db_building'', ''output_db_building''),
      (''db_filling'', ''output_db_filling''),
      (''db_disconnecting'', ''output_db_disconnecting'')]"

text \<open>The \<open>except\<close> clauses of \<open>store_output_data\<close>: \<open>sqlite3.OperationalError\<close> and
  every other \<open>sqlite3.DatabaseError\<close> become \<open>DatabaseAccessError\<close> with the external
  name of the failed stage; any other exception passes.\<close>

definition store_handlers :: "(exc \<times> string) + unit \<Rightarrow> (exc \<times> string) + unit" where
  "store_handlers r =
     (case r of
        Inr u \<Rightarrow> Inr u
      | Inl (e, occured_while) \<Rightarrow>
          (if e = OperationalError \<or> e = IntegrityError
           then Inl (DatabaseAccessError (the (map_of LOCAL_TO_EXTERNAL_STAGES occured_while)),
                     occured_while)
           else Inl (e, occured_while)))"

text \<open>
  \<open>store_output_data\<close>. \<open>path_file\<close> is the database at the resolved output path,
  \<open>None\<close> when no file is there; the result is the outcome and the file as the closed
  connection leaves it. An exception comes with the stage it arose in. Path resolution
  and the opening of the connection are taken to succeed, and no signal arrives. The
  function never reads the clock of its environment.
\<close>

definition store_output_data ::
  "(uuid \<Rightarrow> string \<Rightarrow> uuid) \<Rightarrow> environment \<Rightarrow> LoadedData \<Rightarrow> database option
     \<Rightarrow> ((exc \<times> string) + unit) \<times> database" where
  "store_output_data uuid3 env output_data path_file =
     (let db_created = (path_file = None);
          db_con = connect (case path_file of None \<Rightarrow> empty_database | Some d \<Rightarrow> d);
          (r1, c1) =
            (if \<not> db_created
             then ExceptionOccuredWhile ''db_verifying''
                    (Sqlite3TransactionCustom ''db_verifying'' verify_output_database) db_con
             else ExceptionOccuredWhile ''db_building''
                    (Sqlite3TransactionCustom ''db_building'' build_output_database) db_con);
          (r2, c2) =
            (case r1 of
               Inl e \<Rightarrow> (Inl e, c1)
             | Inr _ \<Rightarrow>
                 ExceptionOccuredWhile ''db_filling''
                   (Sqlite3TransactionCustom ''writing_new_data''
                      (filling uuid3 (env_randbytes env) output_data)) c1);
          (r3, c3) =
            (case r2 of
               Inl e \<Rightarrow> (Inl e, c2)
             | Inr _ \<Rightarrow>
                 ExceptionOccuredWhile ''db_disconnecting''
                   (bind_action commit (\<lambda>_ c. (Inr (), close c))) c2)
      in (store_handlers r3, on_disk (close c3)))"

section \<open>Parsed JSON\<close>

text \<open>
  What \<open>json.load\<close> returns: \<open>None\<close>, \<open>bool\<close>, \<open>int\<close>, \<open>float\<close>, \<open>str\<close>, \<open>list\<close> or
  \<open>dict\<close>. A \<open>dict\<close> is the list of its items in insertion order; its keys are distinct,
  and a lookup takes the first item of the key.
\<close>

datatype json =
    JNull
  | JBool bool
  | JInt int
  | JFloat rat
  | JStr string
  | JArr "json list"
  | JObj "(string \<times> json) list"

definition bind_exc :: "exc + 'a \<Rightarrow> ('a \<Rightarrow> exc + 'b) \<Rightarrow> exc + 'b" where
  "bind_exc r f = (case r of Inl e \<Rightarrow> Inl e | Inr x \<Rightarrow> f x)"

definition assert_that :: "bool \<Rightarrow> exc + unit" where
  "assert_that b = (if b then Inr () else Inl AssertionError)"

text \<open>\<open>str(err)\<close> for the exceptions whose message is read: an \<open>AssertionError()\<close> has
  none.\<close>

definition exc_str :: "exc \<Rightarrow> string" where
  "exc_str e = (case e of UnexpectedInputError m \<Rightarrow> m | _ \<Rightarrow> [])"

definition isinstance_str :: "json \<Rightarrow> bool" where
  "isinstance_str x = (case x of JStr _ \<Rightarrow> True | _ \<Rightarrow> False)"

definition isinstance_bool :: "json \<Rightarrow> bool" where
  "isinstance_bool x = (case x of JBool _ \<Rightarrow> True | _ \<Rightarrow> False)"

text \<open>\<open>bool\<close> is a subclass of \<open>int\<close>.\<close>

definition int_value :: "json \<Rightarrow> int option" where
  "int_value x =
     (case x of JInt i \<Rightarrow> Some i | JBool b \<Rightarrow> Some (if b then 1 else 0) | _ \<Rightarrow> None)"

definition isinstance_int :: "json \<Rightarrow> bool" where
  "isinstance_int x = (int_value x \<noteq> None)"

definition isinstance_float :: "json \<Rightarrow> bool" where
  "isinstance_float x = (case x of JFloat _ \<Rightarrow> True | _ \<Rightarrow> False)"

definition isinstance_Mapping :: "json \<Rightarrow> bool" where
  "isinstance_Mapping x = (case x of JObj _ \<Rightarrow> True | _ \<Rightarrow> False)"

text \<open>A \<open>str\<close> is a \<open>Sequence\<close> too.\<close>

definition isinstance_Sequence :: "json \<Rightarrow> bool" where
  "isinstance_Sequence x = (case x of JArr _ \<Rightarrow> True | JStr _ \<Rightarrow> True | _ \<Rightarrow> False)"

text \<open>\<open>x[key]\<close> for a \<open>str\<close> key: \<open>KeyError\<close> on a \<open>dict\<close> without the key, \<open>TypeError\<close> on
  anything else.\<close>

definition getitem :: "json \<Rightarrow> string \<Rightarrow> exc + json" where
  "getitem x key =
     (case x of
        JObj kvs \<Rightarrow> (case map_of kvs key of None \<Rightarrow> Inl KeyError | Some v \<Rightarrow> Inr v)
      | _ \<Rightarrow> Inl TypeError)"

text \<open>Iteration: the elements of a \<open>list\<close>, the characters of a \<open>str\<close>, the keys of a
  \<open>dict\<close>; \<open>TypeError\<close> otherwise.\<close>

definition iter :: "json \<Rightarrow> exc + json list" where
  "iter x =
     (case x of
        JArr xs \<Rightarrow> Inr xs
      | JStr s \<Rightarrow> Inr (map (\<lambda>c. JStr [c]) s)
      | JObj kvs \<Rightarrow> Inr (map (\<lambda>kv. JStr (fst kv)) kvs)
      | _ \<Rightarrow> Inl TypeError)"

text \<open>\<open>type(x).__name__\<close>.\<close>

definition type_name :: "json \<Rightarrow> string" where
  "type_name x =
     (case x of
        JNull \<Rightarrow> ''NoneType'' | JBool _ \<Rightarrow> ''bool'' | JInt _ \<Rightarrow> ''int'' | JFloat _ \<Rightarrow> ''float''
      | JStr _ \<Rightarrow> ''str'' | JArr _ \<Rightarrow> ''list'' | JObj _ \<Rightarrow> ''dict'')"

text \<open>\<open>str(n)\<close> for a non-negative \<open>int\<close>, and \<open>sep.join(parts)\<close>.\<close>

fun str_nat :: "nat \<Rightarrow> string" where
  "str_nat n =
     (if n < 10 then [char_of (48 + n)] else str_nat (n div 10) @ [char_of (48 + n mod 10)])"

fun join :: "string \<Rightarrow> string list \<Rightarrow> string" where
  "join sep [] = []"
| "join sep [x] = x"
| "join sep (x # y # ys) = x @ sep @ join sep (y # ys)"

text \<open>
  Library functions that are taken as given: \<open>float(text)\<close> and \<open>int(text)\<close>, which follow the
  grammar of Python's literals (\<open>None\<close> standing for \<open>ValueError\<close>), \<open>repr()\<close> of a \<open>float\<close>,
  \<open>str\<close>, \<open>list\<close> or \<open>dict\<close>, and \<open>str()\<close> of an aware \<open>datetime\<close>, given by its seconds since
  the epoch.
\<close>

record builtins =
  float_of_text :: "string \<Rightarrow> rat option"
  int_of_text :: "string \<Rightarrow> int option"
  repr_of :: "json \<Rightarrow> string"
  str_of_datetime :: "rat \<Rightarrow> string"

definition str_int :: "int \<Rightarrow> string" where
  "str_int i = (if i < 0 then CHR ''-'' # str_nat (nat (- i)) else str_nat (nat i))"

definition repr :: "builtins \<Rightarrow> json \<Rightarrow> string" where
  "repr lib x =
     (case x of
        JNull \<Rightarrow> ''None''
      | JBool b \<Rightarrow> (if b then ''True'' else ''False'')
      | JInt i \<Rightarrow> str_int i
      | _ \<Rightarrow> repr_of lib x)"

text \<open>\<open>str(x)\<close>.\<close>

definition str_of :: "builtins \<Rightarrow> json \<Rightarrow> string" where
  "str_of lib x = (case x of JStr s \<Rightarrow> s | _ \<Rightarrow> repr lib x)"

definition STRING_DIGITS :: string where
  "STRING_DIGITS = ''0123456789''"

definition STRING_HEXDIGITS :: string where
  "STRING_HEXDIGITS = ''0123456789abcdefABCDEF''"

section \<open>loaders/chrome\_bookmarks.py\<close>

text \<open>
  The messages of \<open>UnexpectedInputError\<close> are the texts of the source. \<open>file_outcome\<close> below
  is what \<open>_load_from_file\<close> returns or raises.
\<close>

definition is_checksum_valid :: "json \<Rightarrow> bool" where
  "is_checksum_valid obj =
     (case obj of
        JStr s \<Rightarrow> length s = 32 \<and> list_all (\<lambda>c. c \<in> set STRING_HEXDIGITS) s
      | _ \<Rightarrow> False)"

definition wrap_unexpected :: "string \<Rightarrow> exc + 'a \<Rightarrow> exc + 'a" where
  "wrap_unexpected prefix r =
     (case r of
        Inl e \<Rightarrow>
          (case e of
             AssertionError \<Rightarrow> Inl (UnexpectedInputError (prefix @ exc_str e))
           | UnexpectedInputError _ \<Rightarrow> Inl (UnexpectedInputError (prefix @ exc_str e))
           | _ \<Rightarrow> Inl e)
      | Inr x \<Rightarrow> Inr x)"


definition chrome_bookmarks_roots_check :: "json \<Rightarrow> exc + unit" where
  \<open>chrome_bookmarks_roots_check roots =
     (case roots of
        JObj kvs \<Rightarrow>
          (let required_keys = [''bookmark_bar'', ''other'', ''synced''];
               optional_keys = [] :: string list
           in case bind_exc (assert_that (list_all (\<lambda>k. k \<in> set (map fst kvs)) required_keys))
                     (\<lambda>_. assert_that (list_all (\<lambda>k. k \<in> set (required_keys @ optional_keys))
                                          (map fst kvs)))
              of Inl e \<Rightarrow>
                   (if e = AssertionError
                    then Inl (UnexpectedInputError ''JSON "roots" element has unknown format'')
                    else Inl e)
               | Inr u \<Rightarrow> Inr u)
      | _ \<Rightarrow> Inl AttributeError)\<close>

definition chrome_bookmarks_precheck_parsed_input_data :: "builtins \<Rightarrow> json \<Rightarrow> exc + unit" where
  \<open>chrome_bookmarks_precheck_parsed_input_data lib data =
     wrap_unexpected ''Input data has unexpected format: ''
       (bind_exc (getitem data ''version'') (\<lambda>version.
        bind_exc (assert_that (isinstance_int version \<or> isinstance_float version)) (\<lambda>_.
        bind_exc
          (if \<not> (isinstance_int version \<and> int_value version = Some 1)
           then bind_exc (getitem data ''id'') (\<lambda>data_id.
                  Inl (UnexpectedInputError
                         (''Only "version" == 1 is known, '' @ str_of lib data_id
                            @ '' encountered'')))
           else Inr ()) (\<lambda>_.
        bind_exc (getitem data ''checksum'') (\<lambda>checksum.
        bind_exc
          (if \<not> is_checksum_valid checksum
           then Inl (UnexpectedInputError ''"checksum" has unknown format'')
           else Inr ()) (\<lambda>_.
        bind_exc (getitem data ''roots'') (\<lambda>roots.
        bind_exc
          (if \<not> isinstance_Mapping roots
           then bind_exc (getitem data ''data'') (\<lambda>d.
                  Inl (UnexpectedInputError
                         (''JSON "roots" element is expected to be a mapping, "''
                            @ type_name d @ ''" encountered'')))
           else Inr ()) (\<lambda>_.
        chrome_bookmarks_roots_check roots))))))))\<close>

text \<open>\<open>_NODE_GUID_RE\<close>, \<open>[\da-f]{8}-([\da-f]{4}-){3}[\da-f]{12}\<close>, with \<open>\d\<close> taken as the
  ASCII digits: 36 characters, hyphens at the positions 8, 13, 18 and 23.\<close>

definition NODE_GUID_RE_fullmatch :: "string \<Rightarrow> bool" where
  "NODE_GUID_RE_fullmatch x =
     (length x = 36
      \<and> list_all (\<lambda>(i, c). if i \<in> set [8, 13, 18, 23] then c = CHR ''-''
                            else c \<in> set ''0123456789abcdef'')
           (zip [0 ..< 36] x))"

text \<open>Of a \<open>uuid.UUID\<close> built from a text that matches: the variant is \<open>RFC_4122\<close> when the
  two highest bits of octet 8 are 1 and 0, the version is the high half of octet 6.\<close>

definition guid_variant_is_RFC_4122 :: "string \<Rightarrow> bool" where
  "guid_variant_is_RFC_4122 x = (x ! 19 \<in> set ''89ab'')"

definition guid_version :: "string \<Rightarrow> char" where
  "guid_version x = x ! 14"

definition string_value :: "json \<Rightarrow> string" where
  "string_value x = (case x of JStr s \<Rightarrow> s | _ \<Rightarrow> [])"

text \<open>\<open>int(x)\<close> of a text of ASCII digits raises \<open>ValueError\<close> on the empty text and is
  never negative.\<close>

definition assert_int_not_negative :: "json \<Rightarrow> exc + unit" where
  "assert_int_not_negative x = (if string_value x = [] then Inl ValueError else Inr ())"

definition is_digits :: "json \<Rightarrow> bool" where
  "is_digits x =
     (case x of JStr s \<Rightarrow> list_all (\<lambda>c. c \<in> set STRING_DIGITS) s | _ \<Rightarrow> False)"

definition assert_meta_info :: "json \<Rightarrow> exc + unit" where
  "assert_meta_info obj =
     (case obj of
        JObj kvs \<Rightarrow>
          bind_exc (assert_that (list_all (\<lambda>x. x \<in> set [''last_visited_desktop'']) (map fst kvs)))
            (\<lambda>_. assert_that (case map_of kvs ''last_visited_desktop'' of
                                 Some v \<Rightarrow> isinstance_str v | None \<Rightarrow> False))
      | _ \<Rightarrow> Inl AttributeError)"

text \<open>The tables \<open>_required_keys\<close> and \<open>_optional_keys\<close> of \<open>_check_node_contents\<close>.\<close>

definition node_required_keys :: "string \<Rightarrow> (string \<times> (json \<Rightarrow> bool)) list" where
  "node_required_keys node_type =
     [(''date_added'', is_digits),
      (''guid'', \<lambda>x. isinstance_str x \<and> NODE_GUID_RE_fullmatch (string_value x)),
      (''id'', is_digits),
      (''name'', isinstance_str),
      (''type'', isinstance_str)]
     @ (if node_type = ''url'' then [(''url'', isinstance_str)] else [])
     @ (if node_type = ''folder'' then [(''children'', isinstance_Sequence)] else [])"

definition node_optional_keys :: "string \<Rightarrow> (string \<times> (json \<Rightarrow> bool)) list" where
  "node_optional_keys node_type =
     [(''date_modified'', is_digits)]
     @ (if node_type = ''url'' then [(''meta_info'', isinstance_Mapping)] else [])"

text \<open>The three assertions on a table of required and a table of optional keys: every
  required key is there, no other key is there, every value passes its key's test.\<close>

definition keys_conform ::
  "(string \<times> (json \<Rightarrow> bool)) list \<Rightarrow> (string \<times> (json \<Rightarrow> bool)) list
     \<Rightarrow> (string \<times> json) list \<Rightarrow> exc + unit" where
  "keys_conform required_keys optional_keys items =
     bind_exc (assert_that (list_all (\<lambda>k. k \<in> set (map fst items)) (map fst required_keys)))
       (\<lambda>_.
     bind_exc (assert_that (list_all (\<lambda>k. k \<in> set (map fst (required_keys @ optional_keys)))
                              (map fst items)))
       (\<lambda>_.
     assert_that (list_all (\<lambda>i. case map_of (required_keys @ optional_keys) (fst i) of
                                   Some test \<Rightarrow> test (snd i) | None \<Rightarrow> False) items)))"

definition check_node_contents :: "json \<Rightarrow> bool \<Rightarrow> exc + unit" where
  \<open>check_node_contents node is_root =
     (case node of
        JObj obj \<Rightarrow>
          (case
             bind_exc (assert_that (case map_of obj ''type'' of
                                      Some t \<Rightarrow> isinstance_str t | None \<Rightarrow> False)) (\<lambda>_.
             bind_exc (getitem node ''type'') (\<lambda>node_type.
             bind_exc (keys_conform (node_required_keys (string_value node_type))
                         (node_optional_keys (string_value node_type)) obj) (\<lambda>_.
             bind_exc (getitem node ''date_added'') (\<lambda>date_added.
             bind_exc (assert_int_not_negative date_added) (\<lambda>_.
             bind_exc (case map_of obj ''date_modified'' of
                         Some m \<Rightarrow> assert_int_not_negative m | None \<Rightarrow> Inr ()) (\<lambda>_.
             bind_exc (getitem node ''guid'') (\<lambda>guid.
             bind_exc (assert_that (guid_variant_is_RFC_4122 (string_value guid))) (\<lambda>_.
             bind_exc (assert_that (if is_root then guid_version (string_value guid) = CHR ''5''
                                    else guid_version (string_value guid) = CHR ''4'')) (\<lambda>_.
             bind_exc (getitem node ''id'') (\<lambda>node_id.
             bind_exc (assert_int_not_negative node_id) (\<lambda>_.
             case map_of obj ''meta_info'' of
               Some m \<Rightarrow> assert_meta_info m
             | None \<Rightarrow> Inr ())))))))))))
           of Inl e \<Rightarrow>
                (case e of
                   AssertionError \<Rightarrow> Inl (UnexpectedInputError ''JSON data node has unknown format'')
                 | UnexpectedInputError _ \<Rightarrow>
                     Inl (UnexpectedInputError ''JSON data node has unknown format'')
                 | _ \<Rightarrow> Inl e)
            | Inr u \<Rightarrow> Inr u)
      | JArr xs \<Rightarrow>
          (if JStr ''type'' \<in> set xs then Inl TypeError
           else Inl (UnexpectedInputError ''JSON data node has unknown format''))
      | _ \<Rightarrow> Inl AttributeError)\<close>

text \<open>
  \<open>_process_input_tree\<close>. The callback works on the entries collected so far. An
  exception of the callback becomes \<open>_ErrorDuringTreeTraversal\<close> with \<open>nums = [num]\<close>;
  one that comes up from a child gets \<open>num\<close> put in front. \<open>'children' in node\<close> and
  the iteration over \<open>node['children']\<close> are outside the first \<open>try\<close>, so what they
  raise passes unchanged.
\<close>

datatype traversal_error = ErrorDuringTreeTraversal "nat list" | Passed exc

text \<open>\<open>'children' in node\<close> followed by \<open>node['children']\<close>: \<open>None\<close> when the test is false.\<close>

fun contains :: "string \<Rightarrow> string \<Rightarrow> bool" where
  "contains sub [] = (sub = [])"
| "contains sub (c # cs) = (take (length sub) (c # cs) = sub \<or> contains sub cs)"

definition children_of :: "json \<Rightarrow> exc + json list option" where
  "children_of node =
     (case node of
        JObj kvs \<Rightarrow>
          (case map_of kvs ''children'' of
             None \<Rightarrow> Inr None
           | Some ch \<Rightarrow> (case iter ch of Inl e \<Rightarrow> Inl e | Inr cs \<Rightarrow> Inr (Some cs)))
      | JArr xs \<Rightarrow> (if JStr ''children'' \<in> set xs then Inl TypeError else Inr None)
      | JStr s \<Rightarrow> (if contains ''children'' s then Inl TypeError else Inr None)
      | _ \<Rightarrow> Inl TypeError)"

text \<open>A weight of a parsed value, for the termination of the traversal: what iteration
  over a value yields weighs less than the value.\<close>

fun weight :: "json \<Rightarrow> nat" where
  "weight (JObj kvs) = Suc (sum_list (map (\<lambda>kv. Suc (weight (snd kv))) kvs))"
| "weight (JArr xs) = Suc (sum_list (map (\<lambda>x. Suc (weight x)) xs))"
| "weight (JStr s) = Suc (length s)"
| "weight _ = 1"

definition node_weight :: "json \<Rightarrow> nat" where
  "node_weight node = (case node of JObj _ \<Rightarrow> weight node | _ \<Rightarrow> 0)"

lemma weight_map_of:
  "map_of kvs k = Some v \<Longrightarrow> weight v < sum_list (map (\<lambda>kv. Suc (weight (snd kv))) kvs)"
  by (induction kvs) (auto split: if_splits)

lemma node_weight_le: "node_weight x \<le> weight x"
  by (cases x) (simp_all add: node_weight_def)

lemma weight_iter:
  assumes "iter ch = Inr cs"
  shows "sum_list (map (\<lambda>x. Suc (node_weight x)) cs) \<le> weight ch"
proof (cases ch)
  case (JStr s)
  with assms have cs: "cs = map (\<lambda>c. JStr [c]) s" by (simp add: iter_def)
  have "sum_list (map (\<lambda>x. Suc (node_weight x)) (map (\<lambda>c. JStr [c]) s)) = length s"
    by (induction s) (simp_all add: node_weight_def)
  with JStr cs show ?thesis by simp
next
  case (JObj kvs)
  with assms have cs: "cs = map (\<lambda>kv. JStr (fst kv)) kvs" by (simp add: iter_def)
  have "sum_list (map (\<lambda>x. Suc (node_weight x)) (map (\<lambda>kv. JStr (fst kv)) kvs))
          \<le> sum_list (map (\<lambda>kv. Suc (weight (snd kv))) kvs)"
    by (induction kvs) (auto simp: node_weight_def)
  with JObj cs show ?thesis by simp
next
  case (JArr xs)
  with assms have cs: "cs = xs" by (simp add: iter_def)
  have "sum_list (map (\<lambda>x. Suc (node_weight x)) xs) \<le> sum_list (map (\<lambda>x. Suc (weight x)) xs)"
    by (induction xs) (auto simp: node_weight_le add_le_mono)
  with JArr cs show ?thesis by simp
qed (use assms in \<open>simp_all add: iter_def\<close>)

lemma children_of_weight:
  assumes "children_of node = Inr (Some cs)"
  shows "sum_list (map (\<lambda>x. Suc (node_weight x)) cs) < node_weight node"
proof (cases node)
  case (JObj kvs)
  with assms obtain ch where ch: "map_of kvs ''children'' = Some ch" "iter ch = Inr cs"
    by (auto simp: children_of_def split: option.splits sum.splits)
  from weight_iter [OF ch(2)] weight_map_of [OF ch(1)] JObj show ?thesis
    by (simp add: node_weight_def)
qed (use assms in \<open>auto simp: children_of_def split: if_splits\<close>)

function process_input_tree ::
    "(json \<Rightarrow> bool \<Rightarrow> 's \<Rightarrow> exc + 's) \<Rightarrow> json \<Rightarrow> nat \<Rightarrow> bool \<Rightarrow> 's \<Rightarrow> traversal_error + 's"
  and process_children ::
    "(json \<Rightarrow> bool \<Rightarrow> 's \<Rightarrow> exc + 's) \<Rightarrow> json list \<Rightarrow> nat \<Rightarrow> 's \<Rightarrow> traversal_error + 's"
  where
  "process_input_tree callback node num started_at_root s =
     (case callback node started_at_root s of
        Inl err \<Rightarrow> Inl (ErrorDuringTreeTraversal [num])
      | Inr s1 \<Rightarrow>
          (case children_of node of
             Inl e \<Rightarrow> Inl (Passed e)
           | Inr None \<Rightarrow> Inr s1
           | Inr (Some cs) \<Rightarrow>
               (case process_children callback cs 0 s1 of
                  Inl (ErrorDuringTreeTraversal nums) \<Rightarrow> Inl (ErrorDuringTreeTraversal (num # nums))
                | Inl (Passed e) \<Rightarrow> Inl (Passed e)
                | Inr s2 \<Rightarrow> Inr s2)))"
| "process_children callback [] child_i s = Inr s"
| "process_children callback (child # rest) child_i s =
     (case process_input_tree callback child child_i False s of
        Inl e \<Rightarrow> Inl e
      | Inr s1 \<Rightarrow> process_children callback rest (Suc child_i) s1)"
  by pat_completeness auto

termination
proof (relation "measure (\<lambda>x. case x of
          Inl (callback, node, num, started_at_root, s) \<Rightarrow> node_weight node
        | Inr (callback, cs, child_i, s) \<Rightarrow> sum_list (map (\<lambda>x. Suc (node_weight x)) cs))",
       goal_cases)
  case 1
  then show ?case by simp
next
  case (2 callback node num started_at_root s s1 x cs)
  then show ?case using children_of_weight by simp
next
  case (3 callback child rest child_i s)
  then show ?case by simp
next
  case (4 callback child rest child_i s s1)
  then show ?case by simp
qed


text \<open>\<open>_entry_cb\<close>: after the check, \<open>url\<close> and \<open>name\<close> of a \<open>url\<close> node are texts.
  \<open>entries.add\<close> on the set is an insertion into the duplicate-free list.\<close>

definition entry_cb :: "json \<Rightarrow> bool \<Rightarrow> (string \<times> string) list \<Rightarrow> exc + (string \<times> string) list" where
  "entry_cb node is_root found =
     bind_exc (check_node_contents node is_root) (\<lambda>_.
     bind_exc (getitem node ''type'') (\<lambda>node_type.
       if node_type = JStr ''url''
       then bind_exc (getitem node ''url'') (\<lambda>url.
            bind_exc (getitem node ''name'') (\<lambda>name.
              Inr (List.insert (string_value url, string_value name) found)))
       else Inr found))"

text \<open>The loop of \<open>_convert_internal_data\<close> over \<open>input_data['roots'].items()\<close>.\<close>

fun convert_roots ::
  "(string \<times> json) list \<Rightarrow> (string \<times> string) list \<Rightarrow> exc + (string \<times> string) list" where
  "convert_roots [] found = Inr found"
| "convert_roots ((root_key, root_elem) # rest) found =
     (case process_input_tree entry_cb root_elem 0 True found of
        Inl (ErrorDuringTreeTraversal nums) \<Rightarrow>
          Inl (UnexpectedInputError
                 (''Input data has unexpected format (stopped at first failed node ''
                    @ (root_key @ ''.'' @ join ''.'' (tl (map str_nat nums))) @ '')''))
      | Inl (Passed e) \<Rightarrow> Inl e
      | Inr found1 \<Rightarrow> convert_roots rest found1)"

definition chrome_bookmarks_convert_internal_data :: "environment \<Rightarrow> json \<Rightarrow> exc + LoadedData" where
  "chrome_bookmarks_convert_internal_data env input_data =
     bind_exc (getitem input_data ''roots'') (\<lambda>roots.
       case roots of
         JObj items \<Rightarrow>
           bind_exc (convert_roots items [])
             (\<lambda>found. Inr \<lparr>output_timestamp = env_now env, entries = found\<rparr>)
       | _ \<Rightarrow> Inl AttributeError)"

definition chrome_bookmarks_load_input_data ::
  "builtins \<Rightarrow> environment \<Rightarrow> exc + json \<Rightarrow> exc + LoadedData" where
  "chrome_bookmarks_load_input_data lib env file_outcome =
     bind_exc file_outcome (\<lambda>parsed_input_data.
     bind_exc (chrome_bookmarks_precheck_parsed_input_data lib parsed_input_data) (\<lambda>_.
       chrome_bookmarks_convert_internal_data env parsed_input_data))"

section \<open>loaders/tabs\_outliner\_db.py\<close>

text \<open>\<open>float(i)\<close> of an \<open>int\<close> raises \<open>OverflowError\<close> when the rounded value leaves the
  range of a double.\<close>

definition float_of_int :: "int \<Rightarrow> exc + rat" where
  "float_of_int i =
     (if 2 ^ 1024 - 2 ^ 970 \<le> \<bar>i\<bar> then Inl OverflowError else Inr (of_int i))"

definition float_of :: "builtins \<Rightarrow> json \<Rightarrow> exc + rat" where
  "float_of lib x =
     (case x of
        JInt i \<Rightarrow> float_of_int i
      | JBool b \<Rightarrow> Inr (if b then 1 else 0)
      | JFloat r \<Rightarrow> Inr r
      | JStr s \<Rightarrow> (case float_of_text lib s of None \<Rightarrow> Inl ValueError | Some r \<Rightarrow> Inr r)
      | _ \<Rightarrow> Inl TypeError)"

text \<open>\<open>x / 1000.\<close>: a number is converted to \<open>float\<close>, anything else raises \<open>TypeError\<close>.\<close>

definition truediv_1000 :: "json \<Rightarrow> exc + rat" where
  "truediv_1000 x =
     (case x of
        JInt i \<Rightarrow> (case float_of_int i of Inl e \<Rightarrow> Inl e | Inr r \<Rightarrow> Inr (r / 1000))
      | JBool b \<Rightarrow> Inr ((if b then 1 else 0) / 1000)
      | JFloat r \<Rightarrow> Inr (r / 1000)
      | _ \<Rightarrow> Inl TypeError)"

text \<open>\<open>x == n\<close> for an \<open>int\<close> literal \<open>n\<close>, and \<open>x == text\<close>.\<close>

definition equals_int :: "json \<Rightarrow> int \<Rightarrow> bool" where
  "equals_int x n =
     (case x of
        JInt i \<Rightarrow> i = n
      | JBool b \<Rightarrow> (if b then 1 else 0) = n
      | JFloat r \<Rightarrow> r = of_int n
      | _ \<Rightarrow> False)"

definition equals_str :: "json \<Rightarrow> string \<Rightarrow> bool" where
  "equals_str x s = (x = JStr s)"

definition is_true :: "json \<Rightarrow> bool" where
  "is_true x = (x = JBool True)"

definition int_greater :: "int \<Rightarrow> json \<Rightarrow> bool" where
  "int_greater n x = (case int_value x of Some i \<Rightarrow> n < i | None \<Rightarrow> False)"

text \<open>\<open>round(x)\<close> rounds a half to the even neighbour; \<open>math.isclose(a, b)\<close> with the
  default tolerances.\<close>

definition round_half_even :: "rat \<Rightarrow> int" where
  "round_half_even x =
     (let f = \<lfloor>x\<rfloor>; d = x - of_int f
      in if d < 1 / 2 then f else if 1 / 2 < d then f + 1 else if even f then f else f + 1)"

definition isclose :: "rat \<Rightarrow> rat \<Rightarrow> bool" where
  "isclose a b = (a = b \<or> \<bar>a - b\<bar> \<le> (1 / 1000000000) * max \<bar>a\<bar> \<bar>b\<bar>)"

text \<open>\<open>len(x)\<close>, \<open>x[0]\<close>, \<open>x[-1]\<close> and \<open>x[1:-1]\<close> go through the items of a sequence.\<close>

definition sequence_items :: "json \<Rightarrow> json list option" where
  "sequence_items x =
     (case x of JArr xs \<Rightarrow> Some xs | JStr s \<Rightarrow> Some (map (\<lambda>c. JStr [c]) s) | _ \<Rightarrow> None)"

definition len :: "json \<Rightarrow> exc + nat" where
  "len x =
     (case x of
        JArr xs \<Rightarrow> Inr (length xs) | JStr s \<Rightarrow> Inr (length s) | JObj kvs \<Rightarrow> Inr (length kvs)
      | _ \<Rightarrow> Inl TypeError)"

text \<open>\<open>x[i]\<close> for an index \<open>i\<close> that is not negative; the keys of a parsed \<open>dict\<close> are
  texts, so an \<open>int\<close> key is missing.\<close>

definition getindex :: "json \<Rightarrow> nat \<Rightarrow> exc + json" where
  "getindex x i =
     (case x of
        JArr xs \<Rightarrow> (if i < length xs then Inr (xs ! i) else Inl IndexError)
      | JStr s \<Rightarrow> (if i < length s then Inr (JStr [s ! i]) else Inl IndexError)
      | JObj kvs \<Rightarrow> Inl KeyError
      | _ \<Rightarrow> Inl TypeError)"

definition first_item :: "json list \<Rightarrow> exc + json" where
  "first_item xs = (case xs of [] \<Rightarrow> Inl IndexError | x # _ \<Rightarrow> Inr x)"

definition last_item :: "json list \<Rightarrow> exc + json" where
  "last_item xs = (if xs = [] then Inl IndexError else Inr (last xs))"

text \<open>\<open>set(x.keys()) ^ set(names)\<close> is empty: the keys are exactly the names.\<close>

definition keys_are :: "json \<Rightarrow> string list \<Rightarrow> bool" where
  "keys_are x names = (case x of JObj kvs \<Rightarrow> set (map fst kvs) = set names | _ \<Rightarrow> False)"

text \<open>
  \<open>commons.silence_exc\<close>. \<open>err in excs\<close> compares the exception that was raised, an
  instance, with the members of \<open>excs\<close>, which are classes. The two assertions on the
  arguments hold at the one call site.
\<close>

datatype py_object = Instance exc | Class string

definition silence_exc :: "(unit \<Rightarrow> exc + 'a) \<Rightarrow> string list \<Rightarrow> exc + ('a option \<times> exc option)" where
  "silence_exc func excs =
     (case func () of
        Inr result \<Rightarrow> Inr (Some result, None)
      | Inl err \<Rightarrow>
          (if Instance err \<in> set (map Class excs) then Inr (None, Some err) else Inl err))"

text \<open>What \<open>_load_from_file\<close> returns: the row of the snapshot table, converted. The
  timestamp is the \<open>datetime\<close>, in seconds since the epoch.\<close>

record parsed_data =
  data_id :: rat
  data_timestamp :: rat
  data_op_array_len :: rat
  data_data :: json

text \<open>The \<open>try\<close> block on the first element of the array.\<close>

definition first_sentinel_check :: "builtins \<Rightarrow> json list \<Rightarrow> exc + unit" where
  \<open>first_sentinel_check lib dada =
     (case
        bind_exc (first_item dada) (\<lambda>d0.
        bind_exc (assert_that (isinstance_Mapping d0)) (\<lambda>_.
        bind_exc (assert_that (keys_are d0 [''type'', ''node''])) (\<lambda>_.
        bind_exc (getitem d0 ''type'') (\<lambda>d0_type.
        bind_exc (assert_that (equals_int d0_type 2000)) (\<lambda>_.
        bind_exc (getitem d0 ''node'') (\<lambda>node.
        bind_exc (assert_that (isinstance_Mapping node)) (\<lambda>_.
        bind_exc (assert_that (keys_are node [''type'', ''data''])) (\<lambda>_.
        bind_exc (getitem node ''type'') (\<lambda>node_type.
        bind_exc (assert_that (equals_str node_type ''session'')) (\<lambda>_.
        bind_exc (getitem node ''data'') (\<lambda>node_data.
        bind_exc (assert_that (isinstance_Mapping node_data)) (\<lambda>_.
        bind_exc (assert_that (keys_are node_data [''treeId'', ''nextDId'', ''nonDumpedDId''])) (\<lambda>_.
        bind_exc (getitem node_data ''treeId'') (\<lambda>tree_id.
        bind_exc (silence_exc (\<lambda>_. float_of lib tree_id) [''TypeError'', ''ValueError'']) (\<lambda>silenced.
        bind_exc (assert_that (snd silenced = None)) (\<lambda>_.
        bind_exc (float_of lib tree_id) (\<lambda>tree_id_float.
        bind_exc (assert_that (0 \<le> tree_id_float)) (\<lambda>_.
        bind_exc (getitem node_data ''nextDId'') (\<lambda>next_d_id.
        bind_exc (assert_that (equals_int next_d_id 1)) (\<lambda>_.
        bind_exc (getitem node_data ''nonDumpedDId'') (\<lambda>non_dumped_d_id.
        assert_that (equals_int non_dumped_d_id 1))))))))))))))))))))))
      of Inl e \<Rightarrow>
           (if e = AssertionError
            then Inl (UnexpectedInputError ''JSON special first element has unexpected format'')
            else Inl e)
       | Inr u \<Rightarrow> Inr u)\<close>

text \<open>The \<open>try\<close> block on the last element.\<close>

definition last_sentinel_check :: "json list \<Rightarrow> exc + unit" where
  \<open>last_sentinel_check dada =
     (case
        bind_exc (last_item dada) (\<lambda>dl.
        bind_exc (assert_that (isinstance_Mapping dl)) (\<lambda>_.
        bind_exc (assert_that (keys_are dl [''type'', ''time''])) (\<lambda>_.
        bind_exc (getitem dl ''type'') (\<lambda>dl_type.
        assert_that (equals_int dl_type 11111)))))
      of Inl e \<Rightarrow>
           (if e = AssertionError
            then Inl (UnexpectedInputError ''JSON special last element has unexpected format'')
            else Inl e)
       | Inr u \<Rightarrow> Inr u)\<close>

text \<open>The comparison of the time of the last element with the timestamp of the row.\<close>

definition timestamps_check :: "builtins \<Rightarrow> rat \<Rightarrow> json list \<Rightarrow> exc + unit" where
  \<open>timestamps_check lib row_timestamp dada =
     bind_exc (last_item dada) (\<lambda>dl.
     bind_exc (getitem dl ''time'') (\<lambda>time.
     bind_exc (truediv_1000 time) (\<lambda>seconds.
       if \<not> (seconds < row_timestamp \<and> \<bar>row_timestamp - seconds\<bar> < 10)
       then Inl (UnexpectedInputError
                   (''Timestamps on JSON and DB have weird relation; JSON's is ''
                      @ str_of lib (JFloat seconds) @ '' and DB's is ''
                      @ str_of lib (JFloat row_timestamp)))
       else Inr ())))\<close>

text \<open>The checks of \<open>_precheck_parsed_input_data\<close> before the two special elements.\<close>

definition row_fields_check :: "builtins \<Rightarrow> parsed_data \<Rightarrow> exc + json list" where
  \<open>row_fields_check lib data =
     (if \<not> data_id data = 1
      then Inl (UnexpectedInputError
                  (''Only "current_session_snapshot.id" == 1.0 is known, ''
                     @ str_of lib (JFloat (data_id data)) @ '' encountered''))
      else if \<not> 0 \<le> data_timestamp data
      then Inl (UnexpectedInputError
                  (''Weird "current_session_snapshot.timestamp" encountered: ''
                     @ str_of_datetime lib (data_timestamp data)))
      else if \<not> (isclose (data_op_array_len data) (of_int (round_half_even (data_op_array_len data)))
                  \<and> 0 \<le> round_half_even (data_op_array_len data))
      then Inl (UnexpectedInputError
                  (''"current_session_snapshot.op_array_len" is expected to be non-negative''
                     @ '' integer, encountered: '' @ str_of lib (JFloat (data_op_array_len data))))
      else case sequence_items (data_data data) of
             None \<Rightarrow>
               Inl (UnexpectedInputError
                      (''JSON root element is expected to be an array ('Sequence'), "''
                         @ type_name (data_data data) @ ''" encountered''))
           | Some dada \<Rightarrow>
               (if \<not> data_op_array_len data = of_nat (length dada)
                then Inl (UnexpectedInputError
                            (''JSON root array is expected to contain exactly''
                               @ '' "current_session_snapshot.op_array_len"==''
                               @ str_nat (nat (round_half_even (data_op_array_len data)))
                               @ '' elements total, '' @ str_nat (length dada) @ '' found''))
                else Inr dada))\<close>

definition tabs_outliner_db_precheck_parsed_input_data :: "builtins \<Rightarrow> parsed_data \<Rightarrow> exc + unit" where
  "tabs_outliner_db_precheck_parsed_input_data lib data =
     wrap_unexpected ''Input data has unexpected format: ''
       (bind_exc (row_fields_check lib data) (\<lambda>dada.
        bind_exc (first_sentinel_check lib dada) (\<lambda>_.
        bind_exc (last_sentinel_check dada) (\<lambda>_.
          timestamps_check lib (data_timestamp data) dada))))"


text \<open>\<open>x.split(sep, maxsplit=n)\<close> for a separator of one character.\<close>

fun split_max :: "char \<Rightarrow> nat \<Rightarrow> string \<Rightarrow> string list" where
  "split_max sep n [] = [[]]"
| "split_max sep 0 (c # cs) = [c # cs]"
| "split_max sep (Suc n) (c # cs) =
     (if c = sep then [] # split_max sep n cs
      else (case split_max sep (Suc n) cs of
              [] \<Rightarrow> [[c]]
            | part # parts \<Rightarrow> (c # part) # parts))"

definition check_marks_subobj :: "json \<Rightarrow> exc + unit" where
  \<open>check_marks_subobj subobj =
     (case subobj of
        JObj marks \<Rightarrow>
          (case
             bind_exc (assert_that (list_all (\<lambda>k. k \<in> set [''relicons'', ''customFavicon'', ''customTitle''])
                                      (map fst marks))) (\<lambda>_.
             bind_exc (assert_that (''relicons'' \<in> set (map fst marks))) (\<lambda>_.
             bind_exc (getitem subobj ''relicons'') (\<lambda>relicons.
             bind_exc (assert_that (isinstance_Sequence relicons)) (\<lambda>_.
             bind_exc (len relicons) (\<lambda>n.
             bind_exc (assert_that (n = 0)) (\<lambda>_.
             bind_exc (case map_of marks ''customFavicon'' of
                         Some v \<Rightarrow> assert_that (isinstance_str v) | None \<Rightarrow> Inr ()) (\<lambda>_.
             case map_of marks ''customTitle'' of
               Some v \<Rightarrow> assert_that (isinstance_str v) | None \<Rightarrow> Inr ())))))))
           of Inl e \<Rightarrow>
                (case e of
                   AssertionError \<Rightarrow>
                     Inl (UnexpectedInputError ''JSON entry subobject "marks" has unknown format'')
                 | UnexpectedInputError _ \<Rightarrow>
                     Inl (UnexpectedInputError ''JSON entry subobject "marks" has unknown format'')
                 | _ \<Rightarrow> Inl e)
            | Inr u \<Rightarrow> Inr u)
      | _ \<Rightarrow>
          Inl (UnexpectedInputError
                 (''JSON entry subobject "marks" has unexpected type: "'' @ type_name subobj @ ''"'')))\<close>

definition check_colapsed_subobj :: "json \<Rightarrow> exc + unit" where
  \<open>check_colapsed_subobj subobj =
     (if \<not> isinstance_bool subobj
      then Inl (UnexpectedInputError
                  (''JSON entry subobject "colapsed" has unexpected type: "''
                     @ type_name subobj @ ''"''))
      else Inr ())\<close>

text \<open>The tables of \<open>_check_data_subobj\<close>; \<open>typ\<close> is \<open>None\<close> when the entry has no type.\<close>

definition tab_required_keys :: "json option \<Rightarrow> (string \<times> (json \<Rightarrow> bool)) list" where
  "tab_required_keys typ =
     [(''audible'', isinstance_bool),
      (''autoDiscardable'', \<lambda>x. isinstance_bool x \<and> is_true x),
      (''discarded'', isinstance_bool),
      (''mutedInfo'', isinstance_Mapping),
      (''title'', isinstance_str),
      (''url'', isinstance_str)]
     @ (if typ = Some (JStr ''tab'') then [(''id'', int_greater 0)] else [])"

definition tab_optional_keys :: "json option \<Rightarrow> (string \<times> (json \<Rightarrow> bool)) list" where
  "tab_optional_keys typ =
     [(''active'', \<lambda>x. isinstance_bool x \<and> is_true x),
      (''favIconUrl'', isinstance_str),
      (''groupId'', \<lambda>x. isinstance_int x \<and> equals_int x (- 1)),
      (''highlighted'', isinstance_bool),
      (''openerTabId'', int_greater 0),
      (''pendingUrl'', isinstance_str)]
     @ (if typ = None
        then [(''id'', int_greater 0),
              (''wasSavedOnLastWinSave'', \<lambda>x. isinstance_bool x \<and> is_true x),
              (''windowId'', int_greater 0)]
        else [])
     @ (if typ = Some (JStr ''tab'')
        then [(''status'', isinstance_str), (''windowId'', int_greater 0)]
        else [])"

definition win_required_keys :: "(string \<times> (json \<Rightarrow> bool)) list" where
  "win_required_keys = [(''type'', isinstance_str), (''rect'', isinstance_str)]"

definition win_optional_keys :: "json option \<Rightarrow> (string \<times> (json \<Rightarrow> bool)) list" where
  "win_optional_keys typ =
     [(''id'', int_greater 0), (''focused'', \<lambda>x. isinstance_bool x \<and> is_true x)]
     @ (if typ = Some (JStr ''savedwin'') then [(''crashDetectedDate'', int_greater (- 1))] else [])
     @ (if typ = Some (JStr ''win'') then [(''state'', isinstance_str)] else [])"

definition assert_muted_info :: "json \<Rightarrow> exc + unit" where
  "assert_muted_info obj =
     (case obj of
        JObj kvs \<Rightarrow>
          bind_exc (assert_that (case map_of kvs ''muted'' of
                                   Some m \<Rightarrow> isinstance_bool m | None \<Rightarrow> False)) (\<lambda>_.
          bind_exc (assert_that (list_all (\<lambda>x. x \<in> set [''muted'', ''reason'']) (map fst kvs))) (\<lambda>_.
          bind_exc (getitem obj ''muted'') (\<lambda>muted.
            if is_true muted
            then bind_exc (assert_that (case map_of kvs ''reason'' of
                                          Some r \<Rightarrow> isinstance_str r | None \<Rightarrow> False)) (\<lambda>_.
                 bind_exc (getitem obj ''reason'') (\<lambda>reason.
                   assert_that (equals_str reason ''user'')))
            else Inr ())))
      | _ \<Rightarrow> Inl TypeError)"

text \<open>\<open>_parse_rect_record\<close>: four parts, each an \<open>int\<close>; a \<open>ValueError\<close> of \<open>int\<close> becomes
  an \<open>AssertionError\<close>.\<close>

definition parse_rect_record :: "builtins \<Rightarrow> string \<Rightarrow> exc + int list" where
  "parse_rect_record lib x =
     (let t = split_max CHR ''_'' 5 x in
      bind_exc (assert_that (length t = 4)) (\<lambda>_.
        case those (map (int_of_text lib) t) of
          None \<Rightarrow> Inl AssertionError
        | Some numbers \<Rightarrow> Inr numbers))"

definition check_data_subobj :: "builtins \<Rightarrow> json \<Rightarrow> json option \<Rightarrow> exc + unit" where
  \<open>check_data_subobj lib subobj typ =
     (case subobj of
        JObj items \<Rightarrow>
          (case
             (if typ = None \<or> typ = Some (JStr ''tab'')
              then
                bind_exc (keys_conform (tab_required_keys typ) (tab_optional_keys typ) items) (\<lambda>_.
                bind_exc (case map_of items ''status'' of
                            Some st \<Rightarrow> assert_that (st \<in> set [JStr ''loading'', JStr ''unloaded''])
                          | None \<Rightarrow> Inr ()) (\<lambda>_.
                bind_exc (getitem subobj ''mutedInfo'') (\<lambda>muted_info.
                  assert_muted_info muted_info)))
              else if typ = Some (JStr ''savedwin'') \<or> typ = Some (JStr ''win'')
              then
                bind_exc (keys_conform win_required_keys (win_optional_keys typ) items) (\<lambda>_.
                bind_exc (getitem subobj ''type'') (\<lambda>win_type.
                bind_exc (assert_that (win_type \<in> set [JStr ''normal'', JStr ''popup''])) (\<lambda>_.
                bind_exc (case map_of items ''state'' of
                            Some st \<Rightarrow> assert_that (st \<in> set [JStr ''maximized''])
                          | None \<Rightarrow> Inr ()) (\<lambda>_.
                bind_exc (getitem subobj ''rect'') (\<lambda>rect.
                bind_exc (parse_rect_record lib (string_value rect)) (\<lambda>rect_record.
                  assert_that (rect_record ! 0 \<le> rect_record ! 2
                               \<and> rect_record ! 1 \<le> rect_record ! 3)))))))
              else if typ = Some (JStr ''group'')
              then
                bind_exc (assert_that (''rect'' \<in> set (map fst items))) (\<lambda>_.
                bind_exc (getitem subobj ''rect'') (\<lambda>rect.
                bind_exc (assert_that (isinstance_str rect)) (\<lambda>_.
                bind_exc (assert_that (length (split_max CHR ''_'' 5 (string_value rect)) = 4)) (\<lambda>_.
                  assert_that (list_all (\<lambda>x. x = ''undefined'')
                                 (split_max CHR ''_'' 5 (string_value rect)))))))
              else Inl AssertionError)
           of Inl e \<Rightarrow>
                (case e of
                   AssertionError \<Rightarrow>
                     Inl (UnexpectedInputError ''JSON entry subobject "data" has unknown format'')
                 | UnexpectedInputError _ \<Rightarrow>
                     Inl (UnexpectedInputError ''JSON entry subobject "data" has unknown format'')
                 | _ \<Rightarrow> Inl e)
            | Inr u \<Rightarrow> Inr u)
      | _ \<Rightarrow>
          Inl (UnexpectedInputError
                 (''JSON entry subobject "data" has unexpected type: "'' @ type_name subobj @ ''"'')))\<close>

text \<open>\<open>_check_input_entry_contents\<close>; the caller has checked that \<open>entry_contents\<close> is a
  mapping.\<close>

definition check_input_entry_contents :: "builtins \<Rightarrow> json \<Rightarrow> exc + unit" where
  \<open>check_input_entry_contents lib entry_contents =
     (case entry_contents of
        JObj items \<Rightarrow>
          (let typ = map_of items ''type'';
               marks = (case map_of items ''marks'' of
                          Some m \<Rightarrow> check_marks_subobj m | None \<Rightarrow> Inr ());
               colapsed = (case map_of items ''colapsed'' of
                             Some c \<Rightarrow> check_colapsed_subobj c | None \<Rightarrow> Inr ())
           in
           bind_exc
             (if typ = None then Inr ()
              else if typ = Some (JStr ''savedwin'') then marks
              else if typ = Some (JStr ''group'') then bind_exc marks (\<lambda>_. colapsed)
              else if typ = Some (JStr ''tab'') then marks
              else if typ = Some (JStr ''win'') then bind_exc marks (\<lambda>_. colapsed)
              else Inl (UnexpectedInputError
                          (''JSON entry contents has unknown type: "''
                             @ (case typ of Some t \<Rightarrow> str_of lib t | None \<Rightarrow> []) @ ''"''))) (\<lambda>_.
           bind_exc
             (if ''data'' \<notin> set (map fst items)
              then Inl (UnexpectedInputError
                          (''JSON entry contents is expected to have "data" subobject,''
                             @ '' nothing found''))
              else Inr ()) (\<lambda>_.
           bind_exc (getitem entry_contents ''data'') (\<lambda>data.
             check_data_subobj lib data typ))))
      | _ \<Rightarrow> Inl TypeError)\<close>

text \<open>The \<open>try\<close> block of the loop of \<open>_convert_internal_data\<close> on one element.\<close>

definition check_input_entry :: "builtins \<Rightarrow> nat \<Rightarrow> json \<Rightarrow> exc + unit" where
  \<open>check_input_entry lib input_entry_i input_entry =
     (case
        bind_exc (len input_entry) (\<lambda>n.
        bind_exc (assert_that (n = 3)) (\<lambda>_.
        bind_exc (getindex input_entry 0) (\<lambda>e0.
        bind_exc (assert_that (equals_int e0 2001)) (\<lambda>_.
        bind_exc (getindex input_entry 1) (\<lambda>e1.
        bind_exc (assert_that (isinstance_Mapping e1)) (\<lambda>_.
        bind_exc (getindex input_entry 2) (\<lambda>e2.
        bind_exc (assert_that (isinstance_Sequence e2)) (\<lambda>_.
        bind_exc (assert_that (list_all (\<lambda>x. isinstance_int x \<and> int_greater (- 1) x)
                                 (case sequence_items e2 of Some xs \<Rightarrow> xs | None \<Rightarrow> []))) (\<lambda>_.
          check_input_entry_contents lib e1)))))))))
      of Inl e \<Rightarrow>
           (case e of
              AssertionError \<Rightarrow>
                Inl (UnexpectedInputError
                       (''Input data has unexpected format (stopped at first failed entry ''
                          @ str_nat input_entry_i @ ''): '' @ exc_str e))
            | UnexpectedInputError _ \<Rightarrow>
                Inl (UnexpectedInputError
                       (''Input data has unexpected format (stopped at first failed entry ''
                          @ str_nat input_entry_i @ ''): '' @ exc_str e))
            | _ \<Rightarrow> Inl e)
       | Inr u \<Rightarrow> Inr u)\<close>

text \<open>What an element adds to the entries: the url and title of its data when it has no
  type or the type \<open>tab\<close>.\<close>

definition add_input_entry :: "json \<Rightarrow> (string \<times> string) list \<Rightarrow> exc + (string \<times> string) list" where
  "add_input_entry input_entry found =
     bind_exc (getindex input_entry 1) (\<lambda>e1.
       if (case e1 of JObj items \<Rightarrow> ''type'' \<notin> set (map fst items) | _ \<Rightarrow> False)
          \<or> getitem e1 ''type'' = Inr (JStr ''tab'')
       then bind_exc (getitem e1 ''data'') (\<lambda>data.
            bind_exc (getitem data ''url'') (\<lambda>url.
            bind_exc (getitem data ''title'') (\<lambda>title.
              Inr (List.insert (string_value url, string_value title) found))))
       else Inr found)"

fun convert_entries ::
  "builtins \<Rightarrow> nat \<Rightarrow> json list \<Rightarrow> (string \<times> string) list \<Rightarrow> exc + (string \<times> string) list" where
  "convert_entries lib input_entry_i [] found = Inr found"
| "convert_entries lib input_entry_i (input_entry # rest) found =
     bind_exc (check_input_entry lib input_entry_i input_entry) (\<lambda>_.
     bind_exc (add_input_entry input_entry found) (\<lambda>found1.
       convert_entries lib (Suc input_entry_i) rest found1))"

text \<open>\<open>input_data['data'][1:-1]\<close>.\<close>

definition inner_items :: "json list \<Rightarrow> json list" where
  "inner_items xs = butlast (tl xs)"

definition tabs_outliner_db_convert_internal_data ::
  "builtins \<Rightarrow> environment \<Rightarrow> parsed_data \<Rightarrow> exc + LoadedData" where
  "tabs_outliner_db_convert_internal_data lib env input_data =
     (case sequence_items (data_data input_data) of
        None \<Rightarrow> Inl TypeError
      | Some dada \<Rightarrow>
          bind_exc (convert_entries lib 1 (inner_items dada) [])
            (\<lambda>found. Inr \<lparr>output_timestamp = env_now env, entries = found\<rparr>))"

definition tabs_outliner_db_load_input_data ::
  "builtins \<Rightarrow> environment \<Rightarrow> exc + parsed_data \<Rightarrow> exc + LoadedData" where
  "tabs_outliner_db_load_input_data lib env file_outcome =
     bind_exc file_outcome (\<lambda>parsed_input_data.
     bind_exc (tabs_outliner_db_precheck_parsed_input_data lib parsed_input_data) (\<lambda>_.
       tabs_outliner_db_convert_internal_data lib env parsed_input_data))"

section \<open>Vocabulary of the properties\<close>

text \<open>The (url, title) pair of a row of \<open>entries\<close>, and the pair a record entry is stored as.\<close>

definition entry_pair :: "entries_row \<Rightarrow> string \<times> string option" where
  "entry_pair r = (fst (snd (snd r)), snd (snd (snd r)))"

definition record_pair :: "string \<times> string \<Rightarrow> string \<times> string option" where
  "record_pair e = (fst e, Some (snd e))"

text \<open>The values that \<open>extra\<close> holds under a name; the empty list when the table or the
  name is missing.\<close>

definition header_values :: "database \<Rightarrow> string \<Rightarrow> sqlval list" where
  "header_values d name =
     (case extra_table d of None \<Rightarrow> [] | Some rows \<Rightarrow> map snd (filter (\<lambda>r. fst r = name) rows))"

text \<open>The database after the \<open>db_building\<close> stage on a new file.\<close>

definition built_database :: database where
  "built_database =
     \<lparr>extra_table = Some [(''db_id'', SqlBlob (sqlite3_blob_encode_str OUTPUT_DB_ID_STR)),
                          (''db_v'', SqlBlob [1, 0, 0, 0])],
      collections_table = Some [], entries_table = Some []\<rparr>"

text \<open>A connection on a committed database, inside one open savepoint.\<close>

definition in_savepoint :: "string \<Rightarrow> database \<Rightarrow> connection" where
  "in_savepoint name d = \<lparr>on_disk = d, in_view = d, savepoints = [name], begun = False\<rparr>"

text \<open>What \<open>verify_output_database\<close> returns on a database, and what the body of the
  \<open>db_filling\<close> block returns and leaves in view.\<close>

definition verifying_result :: "database \<Rightarrow> exc + unit" where
  "verifying_result d = fst (verify_output_database (in_savepoint ''db_verifying'' d))"

definition filling_result ::
  "(uuid \<Rightarrow> string \<Rightarrow> uuid) \<Rightarrow> (nat \<Rightarrow> bytes) \<Rightarrow> LoadedData \<Rightarrow> database \<Rightarrow> (exc + unit) \<times> database" where
  "filling_result uuid3 randbytes output_data d =
     (case filling uuid3 randbytes output_data (in_savepoint ''writing_new_data'' d) of
        (r, c) \<Rightarrow> (r, in_view c))"

text \<open>The header invariant: \<open>db_id\<close> and \<open>db_v\<close> are each stored once and decode to the
  fixed identity string and schema version.\<close>

definition header_ok :: "database \<Rightarrow> bool" where
  "header_ok d =
     ((case header_values d ''db_id'' of
         [v] \<Rightarrow> sqlite3_blob_decode_str v = Inr OUTPUT_DB_ID_STR
       | _ \<Rightarrow> False)
      \<and> (case header_values d ''db_v'' of
            [w] \<Rightarrow> sqlite3_blob_decode_int w = Inr OUTPUT_DB_V_INT
          | _ \<Rightarrow> False))"

text \<open>An action that, inside a savepoint, changes nothing of the connection but its view.\<close>

definition view_only :: "'a action \<Rightarrow> bool" where
  "view_only A = (\<forall>c. savepoints c \<noteq> [] \<longrightarrow> (\<exists>d'. snd (A c) = c\<lparr>in_view := d'\<rparr>))"

text \<open>The (url, title) pairs of the rows of \<open>entries\<close>, in row order.\<close>

definition stored_pairs :: "database \<Rightarrow> (string \<times> string option) list" where
  "stored_pairs d = (case entries_table d of None \<Rightarrow> [] | Some rows \<Rightarrow> map entry_pair rows)"

text \<open>The header rows after the timestamp is put, and the collections after the default
  collection is inserted if absent.\<close>

definition with_timestamp :: "bytes \<Rightarrow> extra_row list \<Rightarrow> extra_row list" where
  "with_timestamp b xrows =
     filter (\<lambda>r. fst r \<noteq> ''latest_output_timestamp'') xrows
       @ [(''latest_output_timestamp'', SqlBlob b)]"

definition with_default_collection ::
  "(uuid \<Rightarrow> string \<Rightarrow> uuid) \<Rightarrow> collections_row list \<Rightarrow> collections_row list" where
  "with_default_collection uuid3 crows =
     (if list_ex (\<lambda>r. fst r = Some (sqlite3_blob_encode_uuid (DEFAULT_CATEGORY_UUID uuid3))) crows
      then crows
      else crows @ [(Some (sqlite3_blob_encode_uuid (DEFAULT_CATEGORY_UUID uuid3)),
                     Some DEFAULT_CATEGORY_TEXT_ID, Some DEFAULT_CATEGORY_DISPLAYNAME)])"

text \<open>The databases that successful runs of \<open>store_output_data\<close> leave behind, starting
  from no file.\<close>

inductive stored_by_runs :: "(uuid \<Rightarrow> string \<Rightarrow> uuid) \<Rightarrow> database \<Rightarrow> bool"
  for uuid3 :: "uuid \<Rightarrow> string \<Rightarrow> uuid" where
  first_run: "store_output_data uuid3 env output_data None = (Inr (), d) \<Longrightarrow> stored_by_runs uuid3 d"
| later_run: "stored_by_runs uuid3 d \<Longrightarrow>
     store_output_data uuid3 env output_data (Some d) = (Inr (), d') \<Longrightarrow> stored_by_runs uuid3 d'"

text \<open>A stand-in for \<open>uuid.uuid3\<close> in the examples; the theorems hold for every function.\<close>

definition example_uuid3 :: "uuid \<Rightarrow> string \<Rightarrow> uuid" where
  "example_uuid3 namespace name = UUID (take 16 (map of_char name @ uuid_bytes namespace))"

text \<open>Example runs: a record of two entries stored into a new file; \<open>repeating_env\<close> is an
  environment whose random generator returns the same bytes twice, so that the second
  \<open>INSERT\<close> of a run meets the \<open>UNIQUE\<close> constraint on \<open>entry_uuid\<close>.\<close>

definition example_env :: environment where
  "example_env = \<lparr>env_now = 1700000002, env_randbytes = (\<lambda>k. replicate 16 (of_nat k))\<rparr>"

definition repeating_env :: environment where
  "repeating_env = \<lparr>env_now = 1700000002, env_randbytes = (\<lambda>k. replicate 16 0)\<rparr>"

definition example_record :: LoadedData where
  "example_record =
     \<lparr>output_timestamp = 3400000001 / 2,
      entries = [(''https://a.example'', ''A''), (''https://b.example'', ''B'')]\<rparr>"

definition example_header :: "extra_row list" where
  "example_header =
     [(''db_id'', SqlBlob (sqlite3_blob_encode_str OUTPUT_DB_ID_STR)),
      (''db_v'', SqlBlob [1, 0, 0, 0]),
      (''latest_output_timestamp'', SqlBlob [0, 241, 83, 101])]"

definition example_collections :: "collections_row list" where
  "example_collections =
     [(Some (uuid_bytes (DEFAULT_CATEGORY_UUID example_uuid3)), Some ''default'', Some ''Default'')]"

definition example_entry :: "string \<Rightarrow> string \<Rightarrow> string \<Rightarrow> entries_row" where
  "example_entry random_hex url ttl =
     (Some (uuid_bytes (example_uuid3 (UUID_ENTRY_BASE example_uuid3) random_hex)),
      Some (uuid_bytes (DEFAULT_CATEGORY_UUID example_uuid3)), url, Some ttl)"

definition example_stored :: database where
  "example_stored =
     \<lparr>extra_table = Some example_header,
      collections_table = Some example_collections,
      entries_table =
        Some [example_entry ''00000000000000000000000000000000'' ''https://a.example'' ''A'',
              example_entry ''01010101010101010101010101010101'' ''https://b.example'' ''B'']\<rparr>"

definition half_stored :: database where
  "half_stored =
     \<lparr>extra_table = Some example_header,
      collections_table = Some example_collections,
      entries_table =
        Some [example_entry ''00000000000000000000000000000000'' ''https://a.example'' ''A'']\<rparr>"


text \<open>The nodes of a tree in the order of the traversal, each with the child indices that
  lead to it and with the flag of a root.\<close>

definition below :: "nat \<Rightarrow> nat list \<times> bool \<times> json \<Rightarrow> nat list \<times> bool \<times> json" where
  "below child_i pn = (child_i # fst pn, snd pn)"

function preorder :: "bool \<Rightarrow> json \<Rightarrow> (nat list \<times> bool \<times> json) list"
  and preorder_children :: "json list \<Rightarrow> nat \<Rightarrow> (nat list \<times> bool \<times> json) list"
  where
  "preorder is_root node =
     ([], is_root, node)
       # (case children_of node of Inr (Some cs) \<Rightarrow> preorder_children cs 0 | _ \<Rightarrow> [])"
| "preorder_children [] child_i = []"
| "preorder_children (child # rest) child_i =
     map (below child_i) (preorder False child)
       @ preorder_children rest (Suc child_i)"
  by pat_completeness auto
termination
proof (relation "measure (\<lambda>x. case x of
          Inl (is_root, node) \<Rightarrow> node_weight node
        | Inr (cs, child_i) \<Rightarrow> sum_list (map (\<lambda>x. Suc (node_weight x)) cs))",
       goal_cases)
  case 1
  then show ?case by simp
next
  case (2 is_root node x cs)
  then show ?case using children_of_weight by simp
next
  case (3 child rest child_i)
  then show ?case by simp
next
  case (4 child rest child_i)
  then show ?case by simp
qed











text \<open>The elements of the array of a session log: the mapping at index 1 of an element,
  its type if it has one, whether the element is a tab, and the pair of a tab.\<close>

definition entry_contents :: "json \<Rightarrow> json" where
  "entry_contents input_entry = (case getindex input_entry 1 of Inr e1 \<Rightarrow> e1 | Inl _ \<Rightarrow> JNull)"





text \<open>
  Examples. \<open>example_builtins\<close> reads plain decimal numerals and refuses every other text;
  the texts that it returns for \<open>repr()\<close> and for a \<open>datetime\<close> are placeholders.
\<close>

definition decimal_value :: "string \<Rightarrow> nat option" where
  "decimal_value s =
     (if s \<noteq> [] \<and> list_all (\<lambda>c. c \<in> set STRING_DIGITS) s
      then Some (fold (\<lambda>c n. 10 * n + (of_char c - 48)) s 0)
      else None)"

definition example_builtins :: builtins where
  "example_builtins =
     \<lparr>float_of_text = (\<lambda>s. map_option of_nat (decimal_value s)),
      int_of_text = (\<lambda>s. map_option int (decimal_value s)),
      repr_of = (\<lambda>x. ''<'' @ type_name x @ ''>''),
      str_of_datetime = (\<lambda>t. ''<datetime>'')\<rparr>"

text \<open>A bookmark file: the bookmarks bar holds a bookmark and a folder with the same
  bookmark again; the children of \<open>other\<close> and the version are left open.\<close>

definition bookmark_node :: "string \<Rightarrow> string \<Rightarrow> string \<Rightarrow> (string \<times> json) list \<Rightarrow> json" where
  "bookmark_node node_type guid name extra_items =
     JObj ([(''date_added'', JStr ''13285932745000000''), (''guid'', JStr guid),
            (''id'', JStr ''7''), (''name'', JStr name), (''type'', JStr node_type)] @ extra_items)"

definition url_node :: "string \<Rightarrow> string \<Rightarrow> string \<Rightarrow> json" where
  "url_node guid name url = bookmark_node ''url'' guid name [(''url'', JStr url)]"


definition example_roots :: "json list \<Rightarrow> (string \<times> json) list" where
  "example_roots other_children =
     [(''bookmark_bar'', bookmark_node ''folder'' ''0bc5d13f-2cba-5d74-951f-3f233fe6c908''
         ''Bookmarks bar''
         [(''children'', JArr
            [url_node ''6f1c1a52-0000-4000-8000-000000000001'' ''A'' ''https://a.example'',
             bookmark_node ''folder'' ''6f1c1a52-0000-4000-8000-000000000002'' ''dir''
               [(''children'', JArr
                  [url_node ''6f1c1a52-0000-4000-8000-000000000003'' ''A''
                     ''https://a.example''])]])]),
      (''other'', bookmark_node ''folder'' ''82b081ec-3dd3-529c-8475-ab6c344590dd''
         ''Other bookmarks'' [(''children'', JArr other_children)]),
      (''synced'', bookmark_node ''folder'' ''4cf2e351-0e85-532b-bb37-df045d8f8d0f''
         ''Mobile bookmarks'' [(''children'', JArr [])])]"

definition example_bookmarks :: "json \<Rightarrow> json list \<Rightarrow> json" where
  "example_bookmarks version other_children =
     JObj [(''checksum'', JStr ''0123456789abcdef0123456789ABCDEF''),
           (''roots'', JObj (example_roots other_children)),
           (''version'', version)]"


text \<open>A session log of a row with the timestamp 1700000000: the first special element,
  a tab without a type, a saved window, the same tab with the type \<open>tab\<close>, a group, and the
  last special element; the tree id and the time of the last element are left open.\<close>

definition tab_data :: "(string \<times> json) list \<Rightarrow> json" where
  "tab_data extra_items =
     JObj ([(''audible'', JBool False), (''autoDiscardable'', JBool True),
            (''discarded'', JBool False), (''mutedInfo'', JObj [(''muted'', JBool False)]),
            (''title'', JStr ''A''), (''url'', JStr ''https://a.example'')] @ extra_items)"

definition example_array :: "json \<Rightarrow> json \<Rightarrow> json list" where
  "example_array tree_id time =
     [JObj [(''type'', JInt 2000),
            (''node'', JObj [(''type'', JStr ''session''),
                             (''data'', JObj [(''treeId'', tree_id), (''nextDId'', JInt 1),
                                              (''nonDumpedDId'', JInt 1)])])],
      JArr [JInt 2001, JObj [(''data'', tab_data [])], JArr [JInt 0]],
      JArr [JInt 2001,
            JObj [(''type'', JStr ''savedwin''),
                  (''data'', JObj [(''type'', JStr ''normal''), (''rect'', JStr ''0_0_800_600'')])],
            JArr [JInt 1]],
      JArr [JInt 2001, JObj [(''type'', JStr ''tab''), (''data'', tab_data [(''id'', JInt 5)])],
            JArr [JInt 1, JInt 0]],
      JArr [JInt 2001,
            JObj [(''type'', JStr ''group''),
                  (''data'', JObj [(''rect'', JStr ''undefined_undefined_undefined_undefined'')])],
            JArr [JInt 2]],
      JObj [(''type'', JInt 11111), (''time'', time)]]"

definition example_session :: "json \<Rightarrow> json \<Rightarrow> parsed_data" where
  "example_session tree_id time =
     \<lparr>data_id = 1, data_timestamp = 1700000000, data_op_array_len = 6,
      data_data = JArr (example_array tree_id time)\<rparr>"

section \<open>Properties of the coders and of the output store\<close>

lemma length_le_bytes: "length (le_bytes n i) = n"
  by (induction n arbitrary: i) simp_all

lemma int_from_le_bytes:
  "0 \<le> i \<Longrightarrow> i < 256 ^ n \<Longrightarrow> int_from_bytes (le_bytes n i) = i"
proof (induction n arbitrary: i)
  case 0
  then show ?case by simp
next
  case (Suc n)
  have lo: "0 \<le> i div 256" using Suc.prems(1) by simp
  have hi: "i div 256 < 256 ^ n" using Suc.prems(2) by (simp add: div_less_iff_less_mult mult.commute)
  have b: "uint (word_of_int (i mod 256) :: byte) = i mod 256"
    by (simp add: uint_word_of_int)
  show ?case using Suc.IH [OF lo hi] b by simp
qed

lemma unat_of_char_byte: "unat (of_char c :: byte) = of_char c"
proof -
  have "(of_char c :: byte) = of_nat (of_char c)" by (simp add: of_nat_of_char)
  then have "unat (of_char c :: byte) = (of_char c :: nat) mod 2 ^ 8"
    by (simp add: unat_of_nat)
  then show ?thesis by simp
qed

lemma char_of_unat_of_char: "char_of (unat (of_char c :: byte)) = c"
  by (simp add: unat_of_char_byte)


lemma decode_encode_id:
  "sqlite3_blob_decode_str (SqlBlob (sqlite3_blob_encode_str OUTPUT_DB_ID_STR)) = Inr OUTPUT_DB_ID_STR"
proof -
  have "utf8_valid (map unat (sqlite3_blob_encode_str OUTPUT_DB_ID_STR))"
    by (simp add: sqlite3_blob_encode_str_def OUTPUT_DB_ID_STR_def)
  then show ?thesis
    by (simp add: sqlite3_blob_decode_str_def sqlite3_blob_encode_str_def comp_def
        char_of_unat_of_char)
qed


lemma lower_savepoints:
  "map lower_char ''db_verifying'' = ''db_verifying''"
  "map lower_char ''db_building'' = ''db_building''"
  "map lower_char ''writing_new_data'' = ''writing_new_data''"
  by (simp_all add: lower_char_def)

lemma in_txn_simps:
  "savepoints c \<noteq> [] \<Longrightarrow> begin_before_dml c = c"
  "savepoints c \<noteq> [] \<Longrightarrow> autocommit c = c"
  by (simp_all add: begin_before_dml_def autocommit_def in_autocommit_def)

lemma view_onlyI: "(\<And>c. savepoints c \<noteq> [] \<Longrightarrow> \<exists>d'. snd (A c) = c\<lparr>in_view := d'\<rparr>) \<Longrightarrow> view_only A"
  by (simp add: view_only_def)

lemma view_onlyD: "view_only A \<Longrightarrow> savepoints c \<noteq> [] \<Longrightarrow> \<exists>d'. snd (A c) = c\<lparr>in_view := d'\<rparr>"
  by (simp add: view_only_def)

lemma same_view: "\<exists>d'. (c :: connection) = c\<lparr>in_view := d'\<rparr>"
  by (rule exI [of _ "in_view c"]) simp

lemma view_only_return: "view_only (return_action x)"
  by (rule view_onlyI) (auto simp: return_action_def same_view)

lemma view_only_lift: "view_only (lift_action r)"
  by (rule view_onlyI) (auto simp: lift_action_def same_view)

lemma view_only_bind:
  assumes "view_only m" "\<And>x. view_only (f x)"
  shows "view_only (bind_action m f)"
proof (rule view_onlyI)
  fix c :: connection
  assume sp: "savepoints c \<noteq> []"
  obtain r c1 where m: "m c = (r, c1)" by (cases "m c")
  from view_onlyD [OF assms(1) sp] m obtain d1 where c1: "c1 = c\<lparr>in_view := d1\<rparr>" by auto
  show "\<exists>d'. snd (bind_action m f c) = c\<lparr>in_view := d'\<rparr>"
  proof (cases r)
    case (Inl e)
    then show ?thesis using m c1 by (auto simp: bind_action_def)
  next
    case (Inr x)
    have "savepoints c1 \<noteq> []" using sp c1 by simp
    from view_onlyD [OF assms(2) this, of x] obtain d2 where "snd (f x c1) = c1\<lparr>in_view := d2\<rparr>" by auto
    then show ?thesis using m c1 Inr by (auto simp: bind_action_def)
  qed
qed

lemma view_only_prims:
  "view_only (select_extra_value n)"
  "view_only (insert_or_replace_extra n v)"
  "view_only (delete_extra n)"
  "view_only (insert_or_ignore_collection u t dn)"
  "view_only (select_exists_entry url ttl)"
  "view_only (insert_entry eu cu url ttl)"
  "view_only (execute_query q)"
  subgoal by (rule view_onlyI) (auto simp: select_extra_value_def split: option.splits simp: same_view)
  subgoal by (rule view_onlyI) (auto simp: insert_or_replace_extra_def in_txn_simps split: option.splits simp: same_view)
  subgoal by (rule view_onlyI) (auto simp: delete_extra_def in_txn_simps split: option.splits simp: same_view)
  subgoal by (rule view_onlyI) (auto simp: insert_or_ignore_collection_def in_txn_simps split: option.splits simp: same_view)
  subgoal by (rule view_onlyI) (auto simp: select_exists_entry_def split: option.splits simp: same_view)
  subgoal by (rule view_onlyI) (auto simp: insert_entry_def in_txn_simps split: option.splits simp: same_view)
  subgoal by (rule view_onlyI, cases q) (auto simp: in_txn_simps split: option.splits simp: same_view)
  done

lemma view_only_extra_get: "view_only (output_db_extra_get n)"
  unfolding output_db_extra_get_def
  by (intro view_only_bind view_only_lift view_only_prims) (simp add: view_only_lift view_only_return)

lemma view_only_extra_put: "view_only (output_db_extra_put n v)"
  unfolding output_db_extra_put_def
  by (intro view_only_bind view_only_lift) (simp add: view_only_prims split: option.split)

lemma view_only_verify: "view_only verify_output_database"
  unfolding verify_output_database_def
  by (intro view_only_bind view_only_lift view_only_extra_get)
     (auto intro!: view_only_bind view_only_lift view_only_extra_get view_only_return)

lemma view_only_execute_all: "view_only (execute_all qs)"
  by (induction qs) (auto intro!: view_only_bind view_only_return view_only_prims)

lemma view_only_build: "view_only build_output_database"
  unfolding build_output_database_def
  by (intro view_only_bind view_only_lift view_only_extra_put view_only_execute_all)

lemma view_only_insert_entries: "view_only (insert_entries uuid3 randbytes k es)"
  by (induction es arbitrary: k) (auto intro!: view_only_bind view_only_return view_only_prims)

lemma view_only_filling: "view_only (filling uuid3 randbytes output_data)"
  unfolding filling_def
  by (intro view_only_bind view_only_lift view_only_extra_put view_only_prims
      view_only_insert_entries)

lemma in_savepoint_view: "in_savepoint n d\<lparr>in_view := d'\<rparr> = \<lparr>on_disk = d, in_view = d', savepoints = [n], begun = False\<rparr>"
  by (simp add: in_savepoint_def)

lemma transaction_stage:
  assumes "view_only body" and "map lower_char n = n"
  shows "Sqlite3TransactionCustom n body (connect d) =
           (fst (body (in_savepoint n d)), connect (in_view (snd (body (in_savepoint n d)))))"
proof -
  have sp: "savepoints (in_savepoint n d) \<noteq> []" by (simp add: in_savepoint_def)
  from view_onlyD [OF assms(1) sp] obtain d' where
    d': "snd (body (in_savepoint n d)) = in_savepoint n d\<lparr>in_view := d'\<rparr>" by auto
  obtain r c where b: "body (in_savepoint n d) = (r, c)" by (cases "body (in_savepoint n d)")
  with d' have c: "c = \<lparr>on_disk = d, in_view = d', savepoints = [n], begun = False\<rparr>"
    by (simp add: in_savepoint_view)
  have e: "execute_savepoint n (connect d) = (Inr (), in_savepoint n d)"
    by (simp add: execute_savepoint_def connect_def in_savepoint_def)
  have r: "execute_release n c = (Inr (), connect d')"
    by (simp add: c execute_release_def autocommit_def in_autocommit_def connect_def)
  show ?thesis
    by (simp add: Sqlite3TransactionCustom_def assms(2) e b r) (simp add: c)
qed

lemma stage_verifying:
  "ExceptionOccuredWhile ''db_verifying''
     (Sqlite3TransactionCustom ''db_verifying'' verify_output_database) (connect d)
   = ((case verifying_result d of Inl e \<Rightarrow> Inl (e, ''db_verifying'') | Inr x \<Rightarrow> Inr x),
      connect (in_view (snd (verify_output_database (in_savepoint ''db_verifying'' d)))))"
  by (simp add: ExceptionOccuredWhile_def transaction_stage [OF view_only_verify lower_savepoints(1)]
      verifying_result_def split: sum.splits)

lemma stage_filling:
  "ExceptionOccuredWhile ''db_filling''
     (Sqlite3TransactionCustom ''writing_new_data'' (filling uuid3 randbytes output_data)) (connect d)
   = ((case fst (filling_result uuid3 randbytes output_data d) of
         Inl e \<Rightarrow> Inl (e, ''db_filling'') | Inr x \<Rightarrow> Inr x),
      connect (snd (filling_result uuid3 randbytes output_data d)))"
  by (simp add: ExceptionOccuredWhile_def transaction_stage [OF view_only_filling lower_savepoints(3)]
      filling_result_def split: sum.splits prod.splits)

lemma stage_building:
  "ExceptionOccuredWhile ''db_building''
     (Sqlite3TransactionCustom ''db_building'' build_output_database) (connect empty_database)
   = (Inr (), connect built_database)"
proof -
  have "build_output_database (in_savepoint ''db_building'' empty_database)
        = (Inr (), in_savepoint ''db_building'' empty_database\<lparr>in_view := built_database\<rparr>)"
    by (simp add: build_output_database_def DB_CREATION_SEQUENCE_SQL_def bind_action_def
        return_action_def lift_action_def in_savepoint_def empty_database_def autocommit_def
        in_autocommit_def output_db_extra_put_def extra_stored_name_def OUTPUT_DB_EXTRA_SPEC_def
        insert_or_replace_extra_def begin_before_dml_def sqlite3_blob_encode_int_def
        int_to_bytes_def OUTPUT_DB_V_INT_def built_database_def numeral_eq_Suc)
  then show ?thesis
    by (simp add: ExceptionOccuredWhile_def transaction_stage [OF view_only_build lower_savepoints(2)])
qed

lemma stage_disconnecting:
  "ExceptionOccuredWhile ''db_disconnecting''
     (bind_action commit (\<lambda>_ c. (Inr (), close c))) (connect d) = (Inr (), connect d)"
  by (simp add: ExceptionOccuredWhile_def bind_action_def commit_def close_def connect_def)

lemma list_ex_entry_pair:
  "list_ex (\<lambda>r. fst (snd (snd r)) = url \<and> snd (snd (snd r)) = Some ttl) rows
   \<longleftrightarrow> record_pair (url, ttl) \<in> set (map entry_pair rows)"
  by (induction rows) (auto simp: entry_pair_def record_pair_def)

lemma select_exists_entry_Some:
  "entries_table (in_view c) = Some rows \<Longrightarrow>
   select_exists_entry url ttl c =
     (Inr (if record_pair (url, ttl) \<in> set (map entry_pair rows) then 1 else 0), c)"
  by (simp add: select_exists_entry_def list_ex_entry_pair)

lemma insert_entry_Some:
  "savepoints c \<noteq> [] \<Longrightarrow> entries_table (in_view c) = Some rows \<Longrightarrow>
   insert_entry eu cu url ttl c =
     (if list_ex (\<lambda>r. fst r = Some eu) rows then (Inl IntegrityError, c)
      else (Inr (), c\<lparr>in_view := (in_view c)\<lparr>entries_table :=
                   Some (rows @ [(Some eu, Some cu, url, Some ttl)])\<rparr>\<rparr>))"
  by (simp add: insert_entry_def in_txn_simps)

lemma insert_entries_None:
  "entries_table (in_view c) = None \<Longrightarrow>
   insert_entries uuid3 randbytes k es c =
     (if es = [] then (Inr (), c) else (Inl OperationalError, c))"
  by (cases es) (simp_all add: return_action_def bind_action_def select_exists_entry_def)

lemma insert_entries_noop:
  "entries_table (in_view c) = Some rows \<Longrightarrow>
   record_pair ` set es \<subseteq> set (map entry_pair rows) \<Longrightarrow>
   insert_entries uuid3 randbytes k es c = (Inr (), c)"
  by (induction es arbitrary: k)
     (simp_all add: return_action_def bind_action_def select_exists_entry_Some)

lemma insert_entries_others:
  "savepoints c \<noteq> [] \<Longrightarrow> insert_entries uuid3 randbytes k es c = (r, c') \<Longrightarrow>
   extra_table (in_view c') = extra_table (in_view c)
   \<and> collections_table (in_view c') = collections_table (in_view c)"
proof (induction es arbitrary: k c)
  case Nil
  then show ?case by (simp add: return_action_def)
next
  case (Cons e es)
  show ?case
  proof (cases "entries_table (in_view c)")
    case None
    with Cons.prems show ?thesis by (simp add: insert_entries_None del: insert_entries.simps)
  next
    case (Some rows)
    show ?thesis
    proof (cases "record_pair (fst e, snd e) \<in> set (map entry_pair rows)")
      case True
      with Cons.prems Some have "insert_entries uuid3 randbytes k es c = (r, c')"
        by (simp add: bind_action_def select_exists_entry_Some)
      from Cons.IH [OF Cons.prems(1) this] show ?thesis .
    next
      case False
      let ?eu = "sqlite3_blob_encode_uuid (uuid3 (UUID_ENTRY_BASE uuid3) (bytes_hex (randbytes k)))"
      let ?c1 = "c\<lparr>in_view := (in_view c)\<lparr>entries_table :=
                   Some (rows @ [(Some ?eu, Some (sqlite3_blob_encode_uuid (DEFAULT_CATEGORY_UUID uuid3)),
                                  fst e, Some (snd e))])\<rparr>\<rparr>"
      show ?thesis
      proof (cases "list_ex (\<lambda>r. fst r = Some ?eu) rows")
        case True
        with Cons.prems Some False show ?thesis
          by (auto simp add: bind_action_def select_exists_entry_Some insert_entry_Some)
      next
        case nocoll: False
        with Cons.prems Some False have "insert_entries uuid3 randbytes (Suc k) es ?c1 = (r, c')"
          by (simp add: bind_action_def select_exists_entry_Some insert_entry_Some)
        moreover have "savepoints ?c1 \<noteq> []" using Cons.prems(1) by simp
        ultimately have "extra_table (in_view c') = extra_table (in_view ?c1)
           \<and> collections_table (in_view c') = collections_table (in_view ?c1)"
          using Cons.IH by blast
        then show ?thesis by simp
      qed
    qed
  qed
qed

lemma insert_entries_rows:
  "savepoints c \<noteq> [] \<Longrightarrow> entries_table (in_view c) = Some rows \<Longrightarrow>
   insert_entries uuid3 randbytes k es c = (r, c') \<Longrightarrow>
   \<exists>new. entries_table (in_view c') = Some (rows @ new)
        \<and> distinct (map entry_pair new)
        \<and> set (map entry_pair new) \<inter> set (map entry_pair rows) = {}
        \<and> set (map entry_pair new) \<subseteq> record_pair ` set es
        \<and> (r = Inr () \<longrightarrow> record_pair ` set es \<subseteq> set (map entry_pair (rows @ new)))"
proof (induction es arbitrary: k c rows)
  case Nil
  then show ?case by (simp add: return_action_def)
next
  case (Cons e es)
  show ?case
  proof (cases "record_pair (fst e, snd e) \<in> set (map entry_pair rows)")
    case True
    with Cons.prems have "insert_entries uuid3 randbytes k es c = (r, c')"
      by (simp add: bind_action_def select_exists_entry_Some)
    from Cons.IH [OF Cons.prems(1,2) this] obtain new where
      n: "entries_table (in_view c') = Some (rows @ new)" "distinct (map entry_pair new)"
         "set (map entry_pair new) \<inter> set (map entry_pair rows) = {}"
         "set (map entry_pair new) \<subseteq> record_pair ` set es"
         "r = Inr () \<longrightarrow> record_pair ` set es \<subseteq> set (map entry_pair (rows @ new))"
      by blast
    show ?thesis
      apply (rule exI [of _ new])
      using n True by auto
  next
    case False
    let ?eu = "sqlite3_blob_encode_uuid (uuid3 (UUID_ENTRY_BASE uuid3) (bytes_hex (randbytes k)))"
    let ?row = "(Some ?eu, Some (sqlite3_blob_encode_uuid (DEFAULT_CATEGORY_UUID uuid3)),
                 fst e, Some (snd e))"
    let ?c1 = "c\<lparr>in_view := (in_view c)\<lparr>entries_table := Some (rows @ [?row])\<rparr>\<rparr>"
    have rp: "entry_pair ?row = record_pair e"
      by (simp add: entry_pair_def record_pair_def)
    show ?thesis
    proof (cases "list_ex (\<lambda>r. fst r = Some ?eu) rows")
      case True
      with Cons.prems False have "c' = c" "r = Inl IntegrityError"
        by (auto simp add: bind_action_def select_exists_entry_Some insert_entry_Some)
      then show ?thesis using Cons.prems(2) by (intro exI [of _ "[]"]) simp
    next
      case nocoll: False
      with Cons.prems False have run: "insert_entries uuid3 randbytes (Suc k) es ?c1 = (r, c')"
        by (simp add: bind_action_def select_exists_entry_Some insert_entry_Some)
      have sp: "savepoints ?c1 \<noteq> []" using Cons.prems(1) by simp
      have tb: "entries_table (in_view ?c1) = Some (rows @ [?row])" by simp
      from Cons.IH [OF sp tb run] obtain new where
        n: "entries_table (in_view c') = Some ((rows @ [?row]) @ new)" "distinct (map entry_pair new)"
           "set (map entry_pair new) \<inter> set (map entry_pair (rows @ [?row])) = {}"
           "set (map entry_pair new) \<subseteq> record_pair ` set es"
           "r = Inr () \<longrightarrow> record_pair ` set es \<subseteq> set (map entry_pair ((rows @ [?row]) @ new))"
        by blast
      have notin: "record_pair e \<notin> set (map entry_pair rows)" using False by simp
      show ?thesis
        apply (rule exI [of _ "?row # new"])
        using n notin rp by auto
    qed
  qed
qed

lemma in_view_in_savepoint: "in_view (in_savepoint n d) = d"
  by (simp add: in_savepoint_def)

lemma take2_cases:
  "take 2 xs = (case xs of [] \<Rightarrow> [] | [v] \<Rightarrow> [v] | v # w # _ \<Rightarrow> [v, w])"
proof (cases xs)
  case Nil
  then show ?thesis by simp
next
  case (Cons a ys)
  then show ?thesis by (cases ys) (simp_all add: numeral_2_eq_2)
qed

lemma extra_stored_names:
  "extra_stored_name ''db_id'' = Inr ''db_id''"
  "extra_stored_name ''db_v'' = Inr ''db_v''"
  "extra_stored_name ''latest_output_timestamp'' = Inr ''latest_output_timestamp''"
  by (simp_all add: extra_stored_name_def OUTPUT_DB_EXTRA_SPEC_def)

lemma extra_get_eq:
  "extra_stored_name n = Inr n \<Longrightarrow>
   output_db_extra_get n c =
     ((case extra_table (in_view c) of
         None \<Rightarrow> Inl OperationalError
       | Some _ \<Rightarrow>
           (case header_values (in_view c) n of
              [] \<Rightarrow> Inr SqlNull
            | [v] \<Rightarrow> Inr v
            | _ \<Rightarrow> Inl AssertionError)), c)"
  unfolding output_db_extra_get_def bind_action_def lift_action_def return_action_def
    select_extra_value_def header_values_def
  by (simp add: take2_cases split: option.split list.split)

lemma verify_eq:
  "verify_output_database c =
     ((case extra_table (in_view c) of
         None \<Rightarrow> Inl OperationalError
       | Some _ \<Rightarrow>
          (case header_values (in_view c) ''db_id'' of
             [] \<Rightarrow> Inl AttributeError
           | [v] \<Rightarrow>
               (case sqlite3_blob_decode_str v of
                  Inl e \<Rightarrow> Inl e
                | Inr db_id \<Rightarrow>
                    if db_id \<noteq> OUTPUT_DB_ID_STR then Inl AssertionError
                    else (case header_values (in_view c) ''db_v'' of
                            [] \<Rightarrow> Inl TypeError
                          | [w] \<Rightarrow>
                              (case sqlite3_blob_decode_int w of
                                 Inl e \<Rightarrow> Inl e
                               | Inr db_v \<Rightarrow>
                                   if db_v \<noteq> OUTPUT_DB_V_INT then Inl AssertionError
                                   else Inr ())
                          | _ \<Rightarrow> Inl AssertionError))
           | _ \<Rightarrow> Inl AssertionError)), c)"
  unfolding verify_output_database_def bind_action_def lift_action_def return_action_def
    extra_get_eq [OF extra_stored_names(1)] extra_get_eq [OF extra_stored_names(2)]
  by (simp add: sqlite3_blob_decode_str_def sqlite3_blob_decode_int_def
      split: option.split list.split sum.split)

lemma verify_unchanged: "snd (verify_output_database c) = c"
  by (simp add: verify_eq)

lemma verifying_result_ok: "verifying_result d = Inr () \<longleftrightarrow> header_ok d"
proof (cases "extra_table d")
  case None
  then show ?thesis
    by (simp add: verifying_result_def verify_eq in_view_in_savepoint header_ok_def
        header_values_def)
next
  case (Some rows)
  then show ?thesis
    unfolding verifying_result_def verify_eq in_view_in_savepoint header_ok_def
    by (simp split: list.split sum.split)
qed

lemma on_disk_close_connect: "on_disk (close (connect d)) = d"
  by (simp add: close_def connect_def)

lemma store_existing:
  "store_output_data uuid3 env output_data (Some d) =
     (case verifying_result d of
        Inl e \<Rightarrow> (store_handlers (Inl (e, ''db_verifying'')), d)
      | Inr _ \<Rightarrow>
          (case filling_result uuid3 (env_randbytes env) output_data d of
             (Inl e, d') \<Rightarrow> (store_handlers (Inl (e, ''db_filling'')), d')
           | (Inr _, d') \<Rightarrow> (Inr (), d')))"
proof (cases "verifying_result d")
  case (Inl e)
  then show ?thesis
    by (simp add: store_output_data_def stage_verifying verify_unchanged in_view_in_savepoint
        on_disk_close_connect)
next
  case (Inr u)
  obtain r d' where f: "filling_result uuid3 (env_randbytes env) output_data d = (r, d')"
    by (cases "filling_result uuid3 (env_randbytes env) output_data d")
  show ?thesis
  proof (cases r)
    case (Inl e)
    with Inr f show ?thesis
      by (simp add: store_output_data_def stage_verifying verify_unchanged in_view_in_savepoint
          stage_filling on_disk_close_connect)
  next
    case r: (Inr w)
    with Inr f show ?thesis
      by (simp add: store_output_data_def stage_verifying verify_unchanged in_view_in_savepoint
          stage_filling stage_disconnecting on_disk_close_connect store_handlers_def)
  qed
qed

lemma store_new:
  "store_output_data uuid3 env output_data None =
     (case filling_result uuid3 (env_randbytes env) output_data built_database of
        (Inl e, d') \<Rightarrow> (store_handlers (Inl (e, ''db_filling'')), d')
      | (Inr _, d') \<Rightarrow> (Inr (), d'))"
proof -
  obtain r d' where f: "filling_result uuid3 (env_randbytes env) output_data built_database = (r, d')"
    by (cases "filling_result uuid3 (env_randbytes env) output_data built_database")
  show ?thesis
  proof (cases r)
    case (Inl e)
    with f show ?thesis
      by (simp add: store_output_data_def stage_building stage_filling on_disk_close_connect)
  next
    case (Inr w)
    with f show ?thesis
      by (simp add: store_output_data_def stage_building stage_filling stage_disconnecting
          on_disk_close_connect store_handlers_def)
  qed
qed

lemma extra_put_timestamp:
  "savepoints c \<noteq> [] \<Longrightarrow>
   output_db_extra_put ''latest_output_timestamp'' (Some b) c =
     (case extra_table (in_view c) of
        None \<Rightarrow> (Inl OperationalError, c)
      | Some xrows \<Rightarrow>
          (Inr (), c\<lparr>in_view := (in_view c)\<lparr>extra_table := Some (with_timestamp b xrows)\<rparr>\<rparr>))"
  unfolding output_db_extra_put_def extra_stored_names bind_action_def lift_action_def
    insert_or_replace_extra_def with_timestamp_def
  by (simp add: in_txn_simps split: option.split)

lemma insert_default_collection:
  "savepoints c \<noteq> [] \<Longrightarrow>
   insert_or_ignore_collection (sqlite3_blob_encode_uuid (DEFAULT_CATEGORY_UUID uuid3))
       DEFAULT_CATEGORY_TEXT_ID DEFAULT_CATEGORY_DISPLAYNAME c =
     (case collections_table (in_view c) of
        None \<Rightarrow> (Inl OperationalError, c)
      | Some crows \<Rightarrow>
          (Inr (), c\<lparr>in_view := (in_view c)\<lparr>collections_table :=
                        Some (with_default_collection uuid3 crows)\<rparr>\<rparr>))"
  unfolding insert_or_ignore_collection_def with_default_collection_def
  by (cases "collections_table (in_view c)") (auto simp add: in_txn_simps)

lemma filling_eq:
  assumes "savepoints c \<noteq> []"
  shows "filling uuid3 randbytes output_data c =
     (case sqlite3_blob_encode_int \<lfloor>output_timestamp output_data\<rfloor> of
        Inl e \<Rightarrow> (Inl e, c)
      | Inr b \<Rightarrow>
          (case extra_table (in_view c) of
             None \<Rightarrow> (Inl OperationalError, c)
           | Some xrows \<Rightarrow>
               (case collections_table (in_view c) of
                  None \<Rightarrow>
                    (Inl OperationalError,
                     c\<lparr>in_view := (in_view c)\<lparr>extra_table := Some (with_timestamp b xrows)\<rparr>\<rparr>)
                | Some crows \<Rightarrow>
                    insert_entries uuid3 randbytes 0 (entries output_data)
                      (c\<lparr>in_view := (in_view c)
                           \<lparr>extra_table := Some (with_timestamp b xrows),
                            collections_table := Some (with_default_collection uuid3 crows)\<rparr>\<rparr>))))"
proof (cases "sqlite3_blob_encode_int \<lfloor>output_timestamp output_data\<rfloor>")
  case (Inl e)
  then show ?thesis by (simp add: filling_def bind_action_def lift_action_def)
next
  case (Inr b)
  show ?thesis
  proof (cases "extra_table (in_view c)")
    case None
    with Inr assms show ?thesis
      by (simp add: filling_def bind_action_def lift_action_def extra_put_timestamp)
  next
    case (Some xrows)
    let ?c1 = "c\<lparr>in_view := (in_view c)\<lparr>extra_table := Some (with_timestamp b xrows)\<rparr>\<rparr>"
    have sp1: "savepoints ?c1 \<noteq> []" using assms by simp
    show ?thesis
      using Inr Some assms insert_default_collection [OF sp1, of uuid3]
      by (cases "collections_table (in_view c)")
         (simp_all add: filling_def bind_action_def lift_action_def extra_put_timestamp)
  qed
qed

lemma filling_result_eq:
  "filling_result uuid3 randbytes output_data d =
     (case sqlite3_blob_encode_int \<lfloor>output_timestamp output_data\<rfloor> of
        Inl e \<Rightarrow> (Inl e, d)
      | Inr b \<Rightarrow>
          (case extra_table d of
             None \<Rightarrow> (Inl OperationalError, d)
           | Some xrows \<Rightarrow>
               (case collections_table d of
                  None \<Rightarrow> (Inl OperationalError, d\<lparr>extra_table := Some (with_timestamp b xrows)\<rparr>)
                | Some crows \<Rightarrow>
                    (case insert_entries uuid3 randbytes 0 (entries output_data)
                            ((in_savepoint ''writing_new_data'' d)
                               \<lparr>in_view := d\<lparr>extra_table := Some (with_timestamp b xrows),
                                  collections_table := Some (with_default_collection uuid3 crows)\<rparr>\<rparr>)
                     of (r, c) \<Rightarrow> (r, in_view c)))))"
proof -
  have sp: "savepoints (in_savepoint ''writing_new_data'' d) \<noteq> []"
    by (simp add: in_savepoint_def)
  show ?thesis
    unfolding filling_result_def filling_eq [OF sp]
    by (simp add: in_savepoint_def split: sum.split option.split)
qed

lemma filter_with_timestamp:
  "n \<noteq> ''latest_output_timestamp'' \<Longrightarrow>
   filter (\<lambda>r. fst r = n) (with_timestamp b xrows) = filter (\<lambda>r. fst r = n) xrows"
  by (induction xrows) (auto simp: with_timestamp_def)


lemma with_timestamp_idem: "with_timestamp b (with_timestamp b xrows) = with_timestamp b xrows"
  by (simp add: with_timestamp_def)

lemma with_default_collection_idem:
  "with_default_collection uuid3 (with_default_collection uuid3 crows)
     = with_default_collection uuid3 crows"
  by (simp add: with_default_collection_def)

lemma filling_result_extra:
  assumes "filling_result uuid3 randbytes output_data d = (r, d')"
  shows "extra_table d' = extra_table d
         \<or> (\<exists>b xrows. sqlite3_blob_encode_int \<lfloor>output_timestamp output_data\<rfloor> = Inr b
               \<and> extra_table d = Some xrows \<and> extra_table d' = Some (with_timestamp b xrows))"
proof (cases "sqlite3_blob_encode_int \<lfloor>output_timestamp output_data\<rfloor>")
  case (Inl e)
  with assms show ?thesis by (simp add: filling_result_eq)
next
  case (Inr b)
  show ?thesis
  proof (cases "extra_table d")
    case None
    with assms Inr show ?thesis by (simp add: filling_result_eq)
  next
    case (Some xrows)
    show ?thesis
    proof (cases "collections_table d")
      case None
      with assms Inr Some show ?thesis by (auto simp add: filling_result_eq)
    next
      case (Some crows)
      let ?d2 = "d\<lparr>extra_table := Some (with_timestamp b xrows),
                    collections_table := Some (with_default_collection uuid3 crows)\<rparr>"
      let ?c2 = "(in_savepoint ''writing_new_data'' d)\<lparr>in_view := ?d2\<rparr>"
      obtain r2 c' where run: "insert_entries uuid3 randbytes 0 (entries output_data) ?c2 = (r2, c')"
        by (cases "insert_entries uuid3 randbytes 0 (entries output_data) ?c2")
      have sp: "savepoints ?c2 \<noteq> []" by (simp add: in_savepoint_def)
      from insert_entries_others [OF sp run]
      have "extra_table (in_view c') = Some (with_timestamp b xrows)"
        by (simp add: in_view_in_savepoint)
      moreover from assms Inr \<open>extra_table d = Some xrows\<close> Some run have "d' = in_view c'"
        by (simp add: filling_result_eq)
      ultimately show ?thesis using Inr \<open>extra_table d = Some xrows\<close> by simp
    qed
  qed
qed

lemma filling_result_header_values:
  assumes "filling_result uuid3 randbytes output_data d = (r, d')"
    and "n \<noteq> ''latest_output_timestamp''"
  shows "header_values d' n = header_values d n"
  using filling_result_extra [OF assms(1)] assms(2)
  by (auto simp: header_values_def filter_with_timestamp)

lemma filling_result_header_ok:
  "filling_result uuid3 randbytes output_data d = (r, d') \<Longrightarrow> header_ok d \<Longrightarrow> header_ok d'"
  unfolding header_ok_def
  by (simp add: filling_result_header_values)

lemma filling_result_success:
  assumes "filling_result uuid3 randbytes output_data d = (Inr (), d')"
  shows "\<exists>b xrows crows.
           sqlite3_blob_encode_int \<lfloor>output_timestamp output_data\<rfloor> = Inr b
         \<and> extra_table d = Some xrows \<and> collections_table d = Some crows
         \<and> extra_table d' = Some (with_timestamp b xrows)
         \<and> collections_table d' = Some (with_default_collection uuid3 crows)
         \<and> (case entries_table d of
              None \<Rightarrow> entries output_data = [] \<and> entries_table d' = None
            | Some rows \<Rightarrow>
                (\<exists>new. entries_table d' = Some (rows @ new)
                   \<and> distinct (map entry_pair new)
                   \<and> set (map entry_pair new) \<inter> set (map entry_pair rows) = {}
                   \<and> set (map entry_pair new) \<subseteq> record_pair ` set (entries output_data)
                   \<and> record_pair ` set (entries output_data) \<subseteq> set (map entry_pair (rows @ new))))"
proof -
  from assms obtain b where b: "sqlite3_blob_encode_int \<lfloor>output_timestamp output_data\<rfloor> = Inr b"
    by (cases "sqlite3_blob_encode_int \<lfloor>output_timestamp output_data\<rfloor>")
       (simp_all add: filling_result_eq)
  from assms b obtain xrows where x: "extra_table d = Some xrows"
    by (cases "extra_table d") (simp_all add: filling_result_eq)
  from assms b x obtain crows where cr: "collections_table d = Some crows"
    by (cases "collections_table d") (simp_all add: filling_result_eq)
  let ?d2 = "d\<lparr>extra_table := Some (with_timestamp b xrows),
                collections_table := Some (with_default_collection uuid3 crows)\<rparr>"
  let ?c2 = "(in_savepoint ''writing_new_data'' d)\<lparr>in_view := ?d2\<rparr>"
  obtain r2 c' where run: "insert_entries uuid3 randbytes 0 (entries output_data) ?c2 = (r2, c')"
    by (cases "insert_entries uuid3 randbytes 0 (entries output_data) ?c2")
  from assms b x cr run have r2: "r2 = Inr ()" and d': "d' = in_view c'"
    by (simp_all add: filling_result_eq)
  have sp: "savepoints ?c2 \<noteq> []" by (simp add: in_savepoint_def)
  from insert_entries_others [OF sp run]
  have oth: "extra_table d' = Some (with_timestamp b xrows)"
    "collections_table d' = Some (with_default_collection uuid3 crows)"
    by (simp_all add: in_view_in_savepoint d')
  have ent: "(case entries_table d of
              None \<Rightarrow> entries output_data = [] \<and> entries_table d' = None
            | Some rows \<Rightarrow>
                (\<exists>new. entries_table d' = Some (rows @ new)
                   \<and> distinct (map entry_pair new)
                   \<and> set (map entry_pair new) \<inter> set (map entry_pair rows) = {}
                   \<and> set (map entry_pair new) \<subseteq> record_pair ` set (entries output_data)
                   \<and> record_pair ` set (entries output_data) \<subseteq> set (map entry_pair (rows @ new))))"
  proof (cases "entries_table d")
    case None
    then have n2: "entries_table (in_view ?c2) = None" by (simp add: in_view_in_savepoint)
    from run r2 insert_entries_None [OF n2, of uuid3 randbytes 0 "entries output_data"]
    have "entries output_data = []" "c' = ?c2" by (auto split: if_splits)
    then show ?thesis using None d' by (simp add: in_view_in_savepoint)
  next
    case (Some rows)
    then have s2: "entries_table (in_view ?c2) = Some rows" by (simp add: in_view_in_savepoint)
    from insert_entries_rows [OF sp s2 run] r2 d' Some show ?thesis by simp
  qed
  from b x cr oth ent show ?thesis by blast
qed

lemma filling_result_again:
  assumes "sqlite3_blob_encode_int \<lfloor>output_timestamp output_data\<rfloor> = Inr b"
    and "extra_table d = Some (with_timestamp b xrows)"
    and "collections_table d = Some (with_default_collection uuid3 crows)"
    and "record_pair ` set (entries output_data) \<subseteq> set (stored_pairs d)"
  shows "filling_result uuid3 randbytes output_data d = (Inr (), d)"
proof -
  let ?d2 = "d\<lparr>extra_table := Some (with_timestamp b (with_timestamp b xrows)),
                collections_table := Some (with_default_collection uuid3
                                             (with_default_collection uuid3 crows))\<rparr>"
  have d2: "?d2 = d"
    using assms(2,3) by (simp add: with_timestamp_idem with_default_collection_idem)
  have same: "(in_savepoint ''writing_new_data'' d)\<lparr>in_view := d\<rparr> = in_savepoint ''writing_new_data'' d"
    by (simp add: in_savepoint_def)
  have run: "insert_entries uuid3 randbytes 0 (entries output_data)
               (in_savepoint ''writing_new_data'' d) = (Inr (), in_savepoint ''writing_new_data'' d)"
  proof (cases "entries_table d")
    case None
    with assms(4) have "entries output_data = []" by (simp add: stored_pairs_def)
    then show ?thesis by (simp add: return_action_def)
  next
    case (Some rows)
    then have "entries_table (in_view (in_savepoint ''writing_new_data'' d)) = Some rows"
      by (simp add: in_view_in_savepoint)
    moreover have "record_pair ` set (entries output_data) \<subseteq> set (map entry_pair rows)"
      using assms(4) Some by (simp add: stored_pairs_def)
    ultimately show ?thesis by (rule insert_entries_noop)
  qed
  show ?thesis
    unfolding filling_result_eq
    by (simp add: assms(1,2,3) d2 same run in_view_in_savepoint)
qed

lemma store_handlers_Inl: "\<exists>e'. store_handlers (Inl (e, st)) = Inl (e', st)"
  by (simp add: store_handlers_def)

lemma header_ok_built: "header_ok built_database"
  by (simp add: header_ok_def header_values_def built_database_def decode_encode_id
      sqlite3_blob_decode_int_def OUTPUT_DB_V_INT_def)

lemma stored_pairs_built: "stored_pairs built_database = []"
  by (simp add: stored_pairs_def built_database_def)

lemma store_success:
  assumes "store_output_data uuid3 env output_data path_file = (Inr (), d1)"
  shows "\<exists>d0. (path_file = None \<and> d0 = built_database \<or> path_file = Some d0)
            \<and> header_ok d0
            \<and> filling_result uuid3 (env_randbytes env) output_data d0 = (Inr (), d1)"
proof (cases path_file)
  case None
  obtain r d' where f: "filling_result uuid3 (env_randbytes env) output_data built_database = (r, d')"
    by (cases "filling_result uuid3 (env_randbytes env) output_data built_database")
  show ?thesis
  proof (cases r)
    case (Inl e)
    with assms None f store_handlers_Inl [of e "''db_filling''"] show ?thesis
      by (auto simp add: store_new)
  next
    case (Inr u)
    with assms None f show ?thesis by (simp add: store_new header_ok_built)
  qed
next
  case (Some d0)
  show ?thesis
  proof (cases "verifying_result d0")
    case (Inl e)
    with assms Some store_handlers_Inl [of e "''db_verifying''"] show ?thesis
      by (auto simp add: store_existing)
  next
    case v: (Inr u)
    then have ok: "header_ok d0" using verifying_result_ok [of d0] by simp
    obtain r d' where f: "filling_result uuid3 (env_randbytes env) output_data d0 = (r, d')"
      by (cases "filling_result uuid3 (env_randbytes env) output_data d0")
    show ?thesis
    proof (cases r)
      case (Inl e)
      with assms Some v f store_handlers_Inl [of e "''db_filling''"] show ?thesis
        by (auto simp add: store_existing)
    next
      case (Inr w)
      with assms Some v f ok show ?thesis by (simp add: store_existing)
    qed
  qed
qed

lemma filling_result_pairs:
  assumes "filling_result uuid3 randbytes output_data d0 = (Inr (), d1)"
  shows "\<exists>new. stored_pairs d1 = stored_pairs d0 @ new \<and> distinct new
           \<and> set new \<inter> set (stored_pairs d0) = {}
           \<and> set new \<subseteq> record_pair ` set (entries output_data)
           \<and> record_pair ` set (entries output_data) \<subseteq> set (stored_pairs d1)"
proof (cases "entries_table d0")
  case None
  with filling_result_success [OF assms] have "entries output_data = []" "entries_table d1 = None"
    by auto
  with None show ?thesis by (simp add: stored_pairs_def)
next
  case (Some rows)
  with filling_result_success [OF assms] obtain new where
    "entries_table d1 = Some (rows @ new)" "distinct (map entry_pair new)"
    "set (map entry_pair new) \<inter> set (map entry_pair rows) = {}"
    "set (map entry_pair new) \<subseteq> record_pair ` set (entries output_data)"
    "record_pair ` set (entries output_data) \<subseteq> set (map entry_pair (rows @ new))"
    by auto
  with Some show ?thesis
    by (intro exI [of _ "map entry_pair new"]) (simp add: stored_pairs_def)
qed

lemma store_again:
  assumes "store_output_data uuid3 env output_data path_file = (Inr (), d1)"
  shows "store_output_data uuid3 env' output_data (Some d1) = (Inr (), d1)"
proof -
  from store_success [OF assms] obtain d0 where
    ok: "header_ok d0" and f: "filling_result uuid3 (env_randbytes env) output_data d0 = (Inr (), d1)"
    by blast
  from filling_result_header_ok [OF f ok] have "verifying_result d1 = Inr ()"
    by (simp add: verifying_result_ok)
  moreover
  from filling_result_success [OF f] obtain b xrows crows where
    "sqlite3_blob_encode_int \<lfloor>output_timestamp output_data\<rfloor> = Inr b"
    "extra_table d1 = Some (with_timestamp b xrows)"
    "collections_table d1 = Some (with_default_collection uuid3 crows)"
    by blast
  moreover from filling_result_pairs [OF f]
  have "record_pair ` set (entries output_data) \<subseteq> set (stored_pairs d1)" by blast
  ultimately have "filling_result uuid3 (env_randbytes env') output_data d1 = (Inr (), d1)"
    by (intro filling_result_again)
  with \<open>verifying_result d1 = Inr ()\<close> show ?thesis by (simp add: store_existing)
qed

lemma store_distinct:
  assumes "store_output_data uuid3 env output_data path_file = (Inr (), d1)"
    and "case path_file of None \<Rightarrow> True | Some d0 \<Rightarrow> distinct (stored_pairs d0)"
  shows "distinct (stored_pairs d1)"
proof -
  from store_success [OF assms(1)] obtain d0 where
    d0: "path_file = None \<and> d0 = built_database \<or> path_file = Some d0"
    and f: "filling_result uuid3 (env_randbytes env) output_data d0 = (Inr (), d1)"
    by blast
  from d0 assms(2) have "distinct (stored_pairs d0)" by (auto simp: stored_pairs_built)
  with filling_result_pairs [OF f] show ?thesis by auto
qed

lemma stored_by_runs_distinct: "stored_by_runs uuid3 d \<Longrightarrow> distinct (stored_pairs d)"
proof (induction rule: stored_by_runs.induct)
  case (first_run env output_data d)
  then show ?case using store_distinct [of uuid3 env output_data None d] by simp
next
  case (later_run d env output_data d')
  then show ?case using store_distinct [of uuid3 env output_data "Some d" d'] by simp
qed





lemma example_store:
  "store_output_data example_uuid3 example_env example_record None = (Inr (), example_stored)"
  by code_simp

section \<open>Properties of the loaders\<close>

lemma map_of_in_set: "map_of kvs k = Some v \<Longrightarrow> (k, v) \<in> set kvs"
  by (rule map_of_SomeD)









declare process_input_tree.simps [simp del] preorder.simps(1) [simp del]















lemma rewrap_Inr:
  "(case r of Inl e \<Rightarrow> Inl (f e) | Inr u \<Rightarrow> Inr u) = Inr x \<longleftrightarrow> r = Inr x"
  by (cases r) simp_all






















section \<open>The claims\<close>

text \<open>
  C10. The 4-byte little-endian unsigned codec of header integers round-trips on
  \<open>0 \<le> i < 2^32\<close>, and encoding raises for every other integer, so an integer outside
  that range is never stored.
\<close>

theorem C10_int_codec_roundtrip:
  "(0 \<le> i \<and> i < 2 ^ 32 \<longrightarrow>
      (\<exists>b. sqlite3_blob_encode_int i = Inr b \<and> length b = 4
           \<and> sqlite3_blob_decode_int (SqlBlob b) = Inr i))
   \<and> (\<not> (0 \<le> i \<and> i < 2 ^ 32) \<longrightarrow> sqlite3_blob_encode_int i = Inl AssertionError)"
proof (intro conjI impI)
  assume r: "0 \<le> i \<and> i < 2 ^ 32"
  then have "i < 256 ^ 4" by simp
  with r have "int_from_bytes (le_bytes 4 i) = i" by (intro int_from_le_bytes) simp_all
  moreover have "sqlite3_blob_encode_int i = Inr (le_bytes 4 i)"
    using r by (simp add: sqlite3_blob_encode_int_def int_to_bytes_def)
  ultimately show "\<exists>b. sqlite3_blob_encode_int i = Inr b \<and> length b = 4
           \<and> sqlite3_blob_decode_int (SqlBlob b) = Inr i"
    by (simp add: sqlite3_blob_decode_int_def length_le_bytes)
next
  assume "\<not> (0 \<le> i \<and> i < 2 ^ 32)"
  then show "sqlite3_blob_encode_int i = Inl AssertionError"
    by (auto simp add: sqlite3_blob_encode_int_def int_to_bytes_def)
qed

theorem C10_int_codec_roundtrip_witness:
  "sqlite3_blob_encode_int 1700000000 = Inr [0, 241, 83, 101]
   \<and> sqlite3_blob_decode_int (SqlBlob [0, 241, 83, 101]) = Inr 1700000000
   \<and> sqlite3_blob_encode_int (- 1) = Inl AssertionError
   \<and> sqlite3_blob_encode_int 4294967296 = Inl AssertionError"
  using C10_int_codec_roundtrip [of 1700000000] C10_int_codec_roundtrip [of "- 1"]
    C10_int_codec_roundtrip [of 4294967296]
  by (simp add: sqlite3_blob_encode_int_def int_to_bytes_def sqlite3_blob_decode_int_def
      numeral_eq_Suc)

text \<open>
  C1. Storing the same record again into the store that a successful run left behind
  succeeds and leaves the store, hence its \<open>entries\<close> rows, as it was, whatever the random
  generator returns; after a successful run every pair of the record has a row; a run
  keeps the (url, title) pairs of the rows distinct, and so they are distinct in every
  store that successful runs produced from no file.
\<close>

theorem C1_store_twice_same_rows:
  "(store_output_data uuid3 env output_data path_file = (Inr (), d1) \<longrightarrow>
      store_output_data uuid3 env' output_data (Some d1) = (Inr (), d1)
      \<and> record_pair ` set (entries output_data) \<subseteq> set (stored_pairs d1)
      \<and> ((case path_file of None \<Rightarrow> True | Some d0 \<Rightarrow> distinct (stored_pairs d0))
           \<longrightarrow> distinct (stored_pairs d1)))
   \<and> (stored_by_runs uuid3 d \<longrightarrow> distinct (stored_pairs d))"
proof (intro conjI impI)
  assume s: "store_output_data uuid3 env output_data path_file = (Inr (), d1)"
  show "store_output_data uuid3 env' output_data (Some d1) = (Inr (), d1)"
    by (rule store_again [OF s])
  from store_success [OF s] obtain d0 where
    "filling_result uuid3 (env_randbytes env) output_data d0 = (Inr (), d1)" by blast
  from filling_result_pairs [OF this]
  show "record_pair ` set (entries output_data) \<subseteq> set (stored_pairs d1)" by blast
  assume "case path_file of None \<Rightarrow> True | Some d0 \<Rightarrow> distinct (stored_pairs d0)"
  with s show "distinct (stored_pairs d1)" by (rule store_distinct)
next
  assume "stored_by_runs uuid3 d"
  then show "distinct (stored_pairs d)" by (rule stored_by_runs_distinct)
qed

text \<open>The example record stored into a new file, and stored again.\<close>

theorem C1_store_twice_same_rows_witness:
  "store_output_data example_uuid3 example_env example_record None = (Inr (), example_stored)
   \<and> store_output_data example_uuid3 repeating_env example_record (Some example_stored)
       = (Inr (), example_stored)
   \<and> stored_by_runs example_uuid3 example_stored
   \<and> distinct (stored_pairs example_stored)
   \<and> stored_pairs example_stored
       = [(''https://a.example'', Some ''A''), (''https://b.example'', Some ''B'')]"
proof -
  have r: "stored_by_runs example_uuid3 example_stored"
    by (rule first_run [OF example_store])
  have p: "stored_pairs example_stored
       = [(''https://a.example'', Some ''A''), (''https://b.example'', Some ''B'')]"
    by (simp add: stored_pairs_def example_stored_def example_entry_def entry_pair_def)
  show ?thesis
    using C1_store_twice_same_rows [of example_uuid3 example_env example_record None
        example_stored repeating_env example_stored] example_store r p
    by simp
qed

text \<open>
  C3. A run that fails partway through the loop of the \<open>db_filling\<close> block: the second
  \<open>INSERT\<close> is refused. \<open>Sqlite3TransactionCustom.__exit__\<close> executes \<open>RELEASE\<close> on the
  way out, which commits, so the file is not the database that the \<open>db_building\<close>
  stage had left (\<open>built_database\<close>): the timestamp, the default collection and the
  first entry are in it.
\<close>

theorem C3_failed_filling_is_committed:
  "store_output_data example_uuid3 repeating_env example_record None
     = (Inl (DatabaseAccessError ''output_db_filling'', ''db_filling''), half_stored)"
  by code_simp









text \<open>
  C5. A bookmark file of version 2 that has no top-level key \<open>id\<close>: the message of the
  error is built from \<open>data['id']\<close>, the lookup raises \<open>KeyError\<close>, which no \<open>except\<close> clause
  of the precheck catches, and \<open>load_input_data\<close> raises \<open>KeyError\<close>.
\<close>

theorem C5_version_2_raises_KeyError:
  "chrome_bookmarks_load_input_data example_builtins example_env
     (Inr (example_bookmarks (JInt 2) [])) = Inl KeyError"
  by code_simp

text \<open>
  C6. A session log whose first element has the required shape and a tree id that
  \<open>float()\<close> refuses: \<open>silence_exc\<close> tests \<open>err in excs\<close>, the exception against the classes,
  finds no member and raises the exception again. \<open>load_input_data\<close> raises the
  \<open>TypeError\<close> of \<open>float(None)\<close> and the \<open>ValueError\<close> of \<open>float('abc')\<close>.
\<close>

theorem C6_tree_id_error_is_passed_on:
  "tabs_outliner_db_load_input_data example_builtins example_env
     (Inr (example_session JNull (JInt 1699999995000))) = Inl TypeError
   \<and> tabs_outliner_db_load_input_data example_builtins example_env
       (Inr (example_session (JStr ''abc'') (JInt 1699999995000))) = Inl ValueError"
proof -
  have "tabs_outliner_db_load_input_data example_builtins example_env
     (Inr (example_session JNull (JInt 1699999995000))) = Inl TypeError"
    by code_simp
  moreover have "tabs_outliner_db_load_input_data example_builtins example_env
       (Inr (example_session (JStr ''abc'') (JInt 1699999995000))) = Inl ValueError"
    by code_simp
  ultimately show ?thesis by simp
qed





end
